theory Spec2Isabelle
  imports Main "HOL-Library.Sublist"
begin

section \<open>Go strings\<close>

text \<open>
  A Go string is a sequence of bytes, and every operation the generator applies to one
  (\<^verbatim>\<open>len\<close>, slicing, \<^verbatim>\<open>strings.HasPrefix\<close>, \<^verbatim>\<open>strings.ReplaceAll\<close>) counts bytes. A string is
  therefore a \<^typ>\<open>char list\<close>, one \<^typ>\<open>char\<close> per byte. The functions of this section are
  those of Go's \<^verbatim>\<open>strings\<close> package that the generator calls.
\<close>

definition HasPrefix :: "string \<Rightarrow> string \<Rightarrow> bool" where
  "HasPrefix s p = (length p \<le> length s \<and> take (length p) s = p)"

definition HasSuffix :: "string \<Rightarrow> string \<Rightarrow> bool" where
  "HasSuffix s suf = (length suf \<le> length s \<and> drop (length s - length suf) s = suf)"

definition TrimPrefix :: "string \<Rightarrow> string \<Rightarrow> string" where
  "TrimPrefix s p = (if HasPrefix s p then drop (length p) s else s)"

definition TrimSuffix :: "string \<Rightarrow> string \<Rightarrow> string" where
  "TrimSuffix s suf = (if HasSuffix s suf then take (length s - length suf) s else s)"

text \<open>
  \<^verbatim>\<open>strings.ReplaceAll(s, old, new)\<close> replaces the non-overlapping occurrences of
  \<^verbatim>\<open>old\<close>, found from the left. For an empty \<^verbatim>\<open>old\<close> Go inserts \<^verbatim>\<open>new\<close> before every
  UTF-8 sequence and at the end; the first equation does so before every byte, which is the
  same on ASCII text. The generator passes only the constant, non-empty placeholder tokens.
\<close>

fun ReplaceAll :: "string \<Rightarrow> string \<Rightarrow> string \<Rightarrow> string" where
  "ReplaceAll s [] new = new @ concat (map (\<lambda>c. c # new) s)"
| "ReplaceAll [] (c # cs) new = []"
| "ReplaceAll (x # xs) (c # cs) new =
     (if HasPrefix (x # xs) (c # cs)
      then new @ ReplaceAll (drop (length cs) xs) (c # cs) new
      else x # ReplaceAll xs (c # cs) new)"

subsection \<open>Case mapping\<close>

text \<open>
  \<^verbatim>\<open>strings.ToUpper\<close> and \<^verbatim>\<open>strings.ToLower\<close> map a string of ASCII bytes byte by byte.
  A string with a byte above \<^verbatim>\<open>0x7F\<close> is decoded as UTF-8 and mapped through the Unicode
  tables, and \<^verbatim>\<open>strings.Title\<close> consults the same tables; the tables are not part of the
  repository, so these mappings are fields of the record \<open>lib\<close>, as is the function
  \<^verbatim>\<open>inflection.Plural\<close> of the imported package \<^verbatim>\<open>github.com/jinzhu/inflection\<close>.
\<close>

record lib =
  unicode_ToUpper :: "string \<Rightarrow> string"
  unicode_ToLower :: "string \<Rightarrow> string"
  unicode_Title :: "string \<Rightarrow> string"
  inflection_Plural :: "string \<Rightarrow> string"

definition isASCII :: "string \<Rightarrow> bool" where
  "isASCII s = list_all (\<lambda>c. (of_char c :: nat) < 128) s"

definition isLowerByte :: "char \<Rightarrow> bool" where
  "isLowerByte c = (97 \<le> (of_char c :: nat) \<and> (of_char c :: nat) \<le> 122)"

definition isUpperByte :: "char \<Rightarrow> bool" where
  "isUpperByte c = (65 \<le> (of_char c :: nat) \<and> (of_char c :: nat) \<le> 90)"

definition isDigitByte :: "char \<Rightarrow> bool" where
  "isDigitByte c = (48 \<le> (of_char c :: nat) \<and> (of_char c :: nat) \<le> 57)"

definition toUpperByte :: "char \<Rightarrow> char" where
  "toUpperByte c = (if isLowerByte c then char_of ((of_char c :: nat) - 32) else c)"

definition toLowerByte :: "char \<Rightarrow> char" where
  "toLowerByte c = (if isUpperByte c then char_of ((of_char c :: nat) + 32) else c)"

definition ToUpper :: "lib \<Rightarrow> string \<Rightarrow> string" where
  "ToUpper l s = (if isASCII s then map toUpperByte s else unicode_ToUpper l s)"

definition ToLower :: "lib \<Rightarrow> string \<Rightarrow> string" where
  "ToLower l s = (if isASCII s then map toLowerByte s else unicode_ToLower l s)"

text \<open>
  \<^verbatim>\<open>strings.Title\<close> maps to title case every letter that follows a separator, and starts
  as if after a space. Among ASCII bytes the separators are those that are not a letter,
  a digit or an underscore, and title case is upper case.
\<close>

definition isSeparator :: "char \<Rightarrow> bool" where
  "isSeparator c =
     (\<not> (isDigitByte c \<or> isLowerByte c \<or> isUpperByte c \<or> c = CHR ''_''))"

fun Title_from :: "char \<Rightarrow> string \<Rightarrow> string" where
  "Title_from prev [] = []"
| "Title_from prev (r # rs) =
     (if isSeparator prev then toUpperByte r # Title_from r rs else r # Title_from r rs)"

definition Title :: "lib \<Rightarrow> string \<Rightarrow> string" where
  "Title l s = (if isASCII s then Title_from CHR '' '' s else unicode_Title l s)"

section \<open>Naming variants\<close>

text \<open>The earlier revision of the generator pluralises with its own function.\<close>

definition pluralize :: "string \<Rightarrow> string" where
  "pluralize word =
     (if HasSuffix word ''y'' then TrimSuffix word ''y'' @ ''ies''
      else if HasSuffix word ''s'' \<or> HasSuffix word ''sh'' \<or> HasSuffix word ''ch''
      then word @ ''es''
      else word @ ''s'')"

text \<open>The later revision adds \<^verbatim>\<open>titleCase\<close>; \<^verbatim>\<open>s[:1]\<close> is the first byte of \<^verbatim>\<open>s\<close>.\<close>

definition titleCase :: "lib \<Rightarrow> string \<Rightarrow> string" where
  "titleCase l s =
     (if length s = 0 then s else ToUpper l (take 1 s) @ ToLower l (drop 1 s))"

section \<open>Configuration and template data\<close>

record ProjectConfig =
  AppName :: string
  ModuleName :: string
  Domain :: string
  Description :: string
  Author :: string
  Features :: "string list"

text \<open>The template data of the earlier revision of the generator.\<close>

record TemplateData_legacy =
  AppName :: string
  ModuleName :: string
  Domain :: string
  DomainTitle :: string
  DomainPlural :: string
  Description :: string
  Author :: string
  PackageImportPath :: string
  HasFeature :: "string \<Rightarrow> bool"

text \<open>The template data of the later revision.\<close>

record TemplateData =
  AppName :: string
  ModuleName :: string
  Domain :: string
  DomainTitle :: string
  DomainPlural :: string
  DomainPluralLower :: string
  DomainLower :: string
  Description :: string
  Author :: string
  PackageImportPath :: string
  GoVersion :: string
  HasFeature :: "string \<Rightarrow> bool"

text \<open>
  The closure stored in \<^verbatim>\<open>HasFeature\<close>: a loop over \<^verbatim>\<open>config.Features\<close> that returns at
  the first equal element. It is the same in both revisions.
\<close>

fun HasFeature_closure :: "string list \<Rightarrow> string \<Rightarrow> bool" where
  "HasFeature_closure [] feature = False"
| "HasFeature_closure (f # fs) feature =
     (if f = feature then True else HasFeature_closure fs feature)"

text \<open>The struct literal at the head of \<^verbatim>\<open>Generate\<close>, earlier revision.\<close>

definition Generate_data_legacy :: "lib \<Rightarrow> ProjectConfig \<Rightarrow> TemplateData_legacy" where
  "Generate_data_legacy l config =
     \<lparr> TemplateData_legacy.AppName = ProjectConfig.AppName config,
       TemplateData_legacy.ModuleName = ProjectConfig.ModuleName config,
       TemplateData_legacy.Domain = ProjectConfig.Domain config,
       TemplateData_legacy.DomainTitle = Title l (ProjectConfig.Domain config),
       TemplateData_legacy.DomainPlural = pluralize (ProjectConfig.Domain config),
       TemplateData_legacy.Description = ProjectConfig.Description config,
       TemplateData_legacy.Author = ProjectConfig.Author config,
       TemplateData_legacy.PackageImportPath = ProjectConfig.ModuleName config,
       TemplateData_legacy.HasFeature = HasFeature_closure (Features config) \<rparr>"

text \<open>The struct literal at the head of \<^verbatim>\<open>Generate\<close>, later revision.\<close>

definition Generate_data :: "lib \<Rightarrow> ProjectConfig \<Rightarrow> TemplateData" where
  "Generate_data l config =
     \<lparr> AppName = ProjectConfig.AppName config,
       ModuleName = ProjectConfig.ModuleName config,
       Domain = ProjectConfig.Domain config,
       DomainTitle = titleCase l (ProjectConfig.Domain config),
       DomainPlural = inflection_Plural l (ProjectConfig.Domain config),
       DomainPluralLower = ToLower l (inflection_Plural l (ProjectConfig.Domain config)),
       DomainLower = ToLower l (ProjectConfig.Domain config),
       Description = ProjectConfig.Description config,
       Author = ProjectConfig.Author config,
       PackageImportPath = ProjectConfig.ModuleName config,
       GoVersion = ''1.23'',
       HasFeature = HasFeature_closure (Features config) \<rparr>"

section \<open>Output paths\<close>

text \<open>\<^verbatim>\<open>getOutputPath\<close> of the earlier revision knows two placeholders.\<close>

definition getOutputPath_legacy :: "string \<Rightarrow> TemplateData_legacy \<Rightarrow> string" where
  "getOutputPath_legacy templatePath data =
     (let path = TrimPrefix templatePath ''templates/'';
          path = (if HasSuffix path ''.tmpl'' then TrimSuffix path ''.tmpl'' else path);
          path = ReplaceAll path ''{{.AppName}}'' (TemplateData_legacy.AppName data);
          path = ReplaceAll path ''{{.Domain}}'' (TemplateData_legacy.Domain data)
      in path)"

text \<open>\<^verbatim>\<open>getOutputPath\<close> of the later revision knows four.\<close>

definition getOutputPath :: "string \<Rightarrow> TemplateData \<Rightarrow> string" where
  "getOutputPath templatePath data =
     (let path = TrimPrefix templatePath ''templates/'';
          path = (if HasSuffix path ''.tmpl'' then TrimSuffix path ''.tmpl'' else path);
          path = ReplaceAll path ''{{.AppName}}'' (AppName data);
          path = ReplaceAll path ''{{.Domain}}'' (Domain data);
          path = ReplaceAll path ''{{.domain}}'' (DomainLower data);
          path = ReplaceAll path ''{{.domain_plural}}'' (DomainPlural data)
      in path)"

section \<open>Errors, effects and the environment\<close>

text \<open>
  A Go \<^verbatim>\<open>error\<close> is either one returned by the operating system, the template engine or
  an external command (\<open>Err\<close> with its message), or one built by
  \<^verbatim>\<open>fmt.Errorf("...: %w", err)\<close>: \<open>Errorf m err\<close> carries the formatted text \<open>m\<close> before
  the colon and wraps \<open>err\<close>. A function that returns \<^verbatim>\<open>error\<close> returns an
  \<open>error option\<close>, \<open>None\<close> for \<^verbatim>\<open>nil\<close>.
\<close>

datatype error = Err string | Errorf string error

fun Error :: "error \<Rightarrow> string" where
  "Error (Err m) = m"
| "Error (Errorf m err) = m @ '': '' @ Error err"

text \<open>
  Every effect of the generator is recorded, in order and with its outcome, in a trace.
  Permission bits are the decimal values of the octal constants \<^verbatim>\<open>0755\<close> and \<^verbatim>\<open>0644\<close>.
\<close>

datatype event =
    Stdout string
  | MkdirAll string nat "error option"
  | ReadFile string "error option"
  | Parse string "error option"
  | Execute string "error option"
  | WriteFile string string nat "error option"
  | RunCommand string string "string list" bool "error option"

text \<open>
  One call of the function passed to \<^verbatim>\<open>fs.WalkDir\<close>: the path, whether the entry is a
  directory, and the error the walk reports for it.
\<close>

record walk_call =
  w_path :: string
  w_IsDir :: bool
  w_err :: "error option"

text \<open>
  The environment of a run. \<open>templatesFS_WalkDir\<close> is the sequence of calls that
  \<^verbatim>\<open>fs.WalkDir(templatesFS, "templates", fn)\<close> makes while \<^verbatim>\<open>fn\<close> returns \<^verbatim>\<open>nil\<close> (lexical
  order); reading the embedded file system and parsing and executing a template are
  functions of their arguments; the outcome of a directory creation, a file write or an
  external command may depend on everything done so far.
\<close>

record world =
  filepath_Join :: "string \<Rightarrow> string \<Rightarrow> string"
  filepath_Dir :: "string \<Rightarrow> string"
  filepath_Base :: "string \<Rightarrow> string"
  templatesFS_WalkDir :: "walk_call list"
  templatesFS_ReadFile :: "string \<Rightarrow> error + string"
  template_Parse :: "string \<Rightarrow> string \<Rightarrow> error option"
  template_Execute :: "string \<Rightarrow> string \<Rightarrow> TemplateData \<Rightarrow> error + string"
  os_MkdirAll :: "event list \<Rightarrow> string \<Rightarrow> error option"
  os_WriteFile :: "event list \<Rightarrow> string \<Rightarrow> string \<Rightarrow> error option"
  cmd_Run :: "event list \<Rightarrow> string \<Rightarrow> string \<Rightarrow> string list \<Rightarrow> error option"

record Generator =
  outputDir :: string
  verbose :: bool

definition Println :: "string \<Rightarrow> event" where
  "Println s = Stdout (s @ [CHR 0x0A])"

definition sign_working :: string where
  "sign_working = [CHR 0xF0, CHR 0x9F, CHR 0x94, CHR 0x84]"

definition sign_warning :: string where
  "sign_warning = [CHR 0xE2, CHR 0x9A, CHR 0xA0, CHR 0xEF, CHR 0xB8, CHR 0x8F]"

definition sign_done :: string where
  "sign_done = [CHR 0xE2, CHR 0x9C, CHR 0x85]"

section \<open>Writing the project\<close>

text \<open>The function literal that \<^verbatim>\<open>processTemplates\<close> passes to \<^verbatim>\<open>fs.WalkDir\<close>.\<close>

definition walkFn ::
  "world \<Rightarrow> Generator \<Rightarrow> TemplateData \<Rightarrow> string \<Rightarrow> walk_call \<Rightarrow> event list
     \<Rightarrow> error option \<times> event list" where
  "walkFn w g data projectDir c tr =
     (case w_err c of
        Some err \<Rightarrow> (Some err, tr)
      | None \<Rightarrow>
          if w_IsDir c then (None, tr)
          else
            (case templatesFS_ReadFile w (w_path c) of
               Inl err \<Rightarrow>
                 (Some (Errorf (''failed to read template file '' @ w_path c) err),
                  tr @ [ReadFile (w_path c) (Some err)])
             | Inr content \<Rightarrow>
                 (case template_Parse w (w_path c) content of
                    Some err \<Rightarrow>
                      (Some (Errorf (''failed to parse template '' @ w_path c) err),
                       tr @ [ReadFile (w_path c) None, Parse (w_path c) (Some err)])
                  | None \<Rightarrow>
                      (case template_Execute w (w_path c) content data of
                         Inl err \<Rightarrow>
                           (Some (Errorf (''failed to execute template '' @ w_path c) err),
                            tr @ [ReadFile (w_path c) None, Parse (w_path c) None,
                                  Execute (w_path c) (Some err)])
                       | Inr buf \<Rightarrow>
                           (let tr1 = tr @ [ReadFile (w_path c) None, Parse (w_path c) None,
                                            Execute (w_path c) None];
                                outputPath = getOutputPath (w_path c) data;
                                outputPath = filepath_Join w projectDir outputPath
                            in case os_MkdirAll w tr1 (filepath_Dir w outputPath) of
                                 Some err \<Rightarrow>
                                   (Some (Errorf (''failed to create directory for '' @ outputPath) err),
                                    tr1 @ [MkdirAll (filepath_Dir w outputPath) 493 (Some err)])
                               | None \<Rightarrow>
                                   (let tr2 = tr1 @ [MkdirAll (filepath_Dir w outputPath) 493 None]
                                    in case os_WriteFile w tr2 outputPath buf of
                                         Some err \<Rightarrow>
                                           (Some (Errorf (''failed to write file '' @ outputPath) err),
                                            tr2 @ [WriteFile outputPath buf 420 (Some err)])
                                       | None \<Rightarrow>
                                           (None, tr2 @ [WriteFile outputPath buf 420 None])))))))"

text \<open>
  \<^verbatim>\<open>fs.WalkDir\<close> calls the function for one entry after the other and returns the first
  error it gets (the function never returns \<^verbatim>\<open>SkipDir\<close> or \<^verbatim>\<open>SkipAll\<close>).
\<close>

fun WalkDir ::
  "world \<Rightarrow> Generator \<Rightarrow> TemplateData \<Rightarrow> string \<Rightarrow> walk_call list \<Rightarrow> event list
     \<Rightarrow> error option \<times> event list" where
  "WalkDir w g data projectDir [] tr = (None, tr)"
| "WalkDir w g data projectDir (c # cs) tr =
     (case walkFn w g data projectDir c tr of
        (Some err, tr') \<Rightarrow> (Some err, tr')
      | (None, tr') \<Rightarrow> WalkDir w g data projectDir cs tr')"

definition processTemplates ::
  "world \<Rightarrow> Generator \<Rightarrow> TemplateData \<Rightarrow> string \<Rightarrow> event list
     \<Rightarrow> error option \<times> event list" where
  "processTemplates w g data projectDir tr =
     WalkDir w g data projectDir (templatesFS_WalkDir w) tr"

section \<open>Post-processing\<close>

definition runCommand ::
  "world \<Rightarrow> Generator \<Rightarrow> string \<Rightarrow> string \<Rightarrow> string list \<Rightarrow> event list
     \<Rightarrow> error option \<times> event list" where
  "runCommand w g projectDir name args tr =
     (let r = cmd_Run w tr projectDir name args
      in (r, tr @ [RunCommand projectDir name args (verbose g) r]))"

definition PostProcess ::
  "world \<Rightarrow> Generator \<Rightarrow> string \<Rightarrow> TemplateData \<Rightarrow> event list
     \<Rightarrow> error option \<times> event list" where
  "PostProcess w g projectDir data tr =
     (let tr = tr @ [Println (sign_working @ '' Running post-generation tasks...'')]
      in case runCommand w g projectDir ''go'' [''mod'', ''init'', ModuleName data] tr of
        (Some err, tr) \<Rightarrow> (Some (Errorf ''failed to initialize go module'' err), tr)
      | (None, tr) \<Rightarrow>
     (let (r, tr) = runCommand w g projectDir ''sqlc'' [''generate''] tr;
          tr = (case r of
                  Some err \<Rightarrow>
                    tr @ [Stdout (sign_warning @ ''  SQLc generation failed: '' @ Error err
                                    @ [CHR 0x0A]),
                          Println ''   Consider installing sqlc: go install github.com/sqlc-dev/sqlc/cmd/sqlc@latest'',
                          Println (''   Or run '' @ [CHR 0x27] @ ''make sqlc'' @ [CHR 0x27]
                                     @ '' in the project directory after setup'')]
                | None \<Rightarrow> tr @ [Println (sign_done @ '' SQLc code generation successful'')])
      in case runCommand w g projectDir ''go'' [''mod'', ''tidy''] tr of
        (Some err, tr) \<Rightarrow> (Some (Errorf ''failed to run go mod tidy'' err), tr)
      | (None, tr) \<Rightarrow>
     (case runCommand w g projectDir ''go'' [''fmt'', ''./...''] tr of
        (Some err, tr) \<Rightarrow> (Some (Errorf ''failed to format generated code'' err), tr)
      | (None, tr) \<Rightarrow>
     (let (r, tr) = runCommand w g projectDir ''goimports'' [''-w'', ''.''] tr;
          tr = (case r of
                  Some err \<Rightarrow>
                    tr @ [Stdout (sign_warning @ ''  goimports not available or failed: ''
                                    @ Error err @ [CHR 0x0A]),
                          Println ''   Consider installing goimports: go install golang.org/x/tools/cmd/goimports@latest'']
                | None \<Rightarrow> tr);
          (r, tr) = runCommand w g projectDir ''go'' [''build'', ''./...''] tr;
          tr = (case r of
                  Some err \<Rightarrow>
                    tr @ [Stdout (sign_warning
                                    @ ''  Build failed (this is expected if dependencies require database): ''
                                    @ Error err @ [CHR 0x0A]),
                          Println (''   Run '' @ [CHR 0x27] @ ''make up'' @ [CHR 0x27]
                                     @ '' in the project directory to start the database and complete setup'')]
                | None \<Rightarrow> tr @ [Println (sign_done @ '' Build successful'')]);
          tr = tr @ [Println (sign_done @ '' Post-generation tasks completed''),
                     Println [],
                     Println ''Next steps:'',
                     Println (''  cd '' @ filepath_Base w projectDir),
                     Println ''  make up      # Start the development environment'',
                     Println ''  make help    # See all available commands'']
      in (None, tr)))))"

section \<open>Generate\<close>

definition Generate ::
  "lib \<Rightarrow> world \<Rightarrow> Generator \<Rightarrow> ProjectConfig \<Rightarrow> event list \<Rightarrow> error option \<times> event list" where
  "Generate l w g config tr =
     (let data = Generate_data l config;
          projectDir = filepath_Join w (outputDir g) (ProjectConfig.AppName config)
      in case os_MkdirAll w tr projectDir of
           Some err \<Rightarrow>
             (Some (Errorf ''failed to create project directory'' err),
              tr @ [MkdirAll projectDir 493 (Some err)])
         | None \<Rightarrow>
             (case processTemplates w g data projectDir (tr @ [MkdirAll projectDir 493 None]) of
                (Some err, tr) \<Rightarrow> (Some err, tr)
              | (None, tr) \<Rightarrow>
                  (case PostProcess w g projectDir data tr of
                     (Some err, tr) \<Rightarrow> (Some (Errorf ''post-processing failed'' err), tr)
                   | (None, tr) \<Rightarrow> (None, tr))))"

text \<open>What a trace says was done: the files written, and the commands run.\<close>

fun written :: "event list \<Rightarrow> (string \<times> string) list" where
  "written [] = []"
| "written (WriteFile p b m None # tr) = (p, b) # written tr"
| "written (e # tr) = written tr"

fun commands :: "event list \<Rightarrow> (string \<times> string list) list" where
  "commands [] = []"
| "commands (RunCommand d n a v r # tr) = (n, a) # commands tr"
| "commands (e # tr) = commands tr"

text \<open>The rendered text of a template that reads and executes without error.\<close>

definition rendered :: "world \<Rightarrow> TemplateData \<Rightarrow> string \<Rightarrow> string" where
  "rendered w data p =
     (case templatesFS_ReadFile w p of
        Inl err \<Rightarrow> []
      | Inr content \<Rightarrow>
          (case template_Execute w p content data of Inl err \<Rightarrow> [] | Inr buf \<Rightarrow> buf))"

section \<open>Auxiliary definitions\<close>

text \<open>
  The files a successful walk over the calls \<open>cs\<close> writes: one per entry that is not a
  directory, at the resolved path joined to the project directory, in the order of the walk.
\<close>

definition outputs :: "world \<Rightarrow> TemplateData \<Rightarrow> string \<Rightarrow> walk_call list \<Rightarrow> (string \<times> string) list" where
  "outputs w data projectDir cs =
     map (\<lambda>c. (filepath_Join w projectDir (getOutputPath (w_path c) data), rendered w data (w_path c)))
       (filter (\<lambda>c. \<not> w_IsDir c) cs)"

text \<open>
  The three blocks of \<^verbatim>\<open>PostProcess\<close> that run a command and go on whatever its outcome, and
  the closing messages. They serve the proofs; \<open>PostProcess_steps\<close> shows that
  \<^verbatim>\<open>PostProcess\<close> is made of them.
\<close>

definition step_sqlc :: "world \<Rightarrow> Generator \<Rightarrow> string \<Rightarrow> event list \<Rightarrow> event list" where
  "step_sqlc w g projectDir tr =
     (let (r, tr) = runCommand w g projectDir ''sqlc'' [''generate''] tr
      in case r of
           Some err \<Rightarrow>
             tr @ [Stdout (sign_warning @ ''  SQLc generation failed: '' @ Error err
                             @ [CHR 0x0A]),
                   Println ''   Consider installing sqlc: go install github.com/sqlc-dev/sqlc/cmd/sqlc@latest'',
                   Println (''   Or run '' @ [CHR 0x27] @ ''make sqlc'' @ [CHR 0x27]
                              @ '' in the project directory after setup'')]
         | None \<Rightarrow> tr @ [Println (sign_done @ '' SQLc code generation successful'')])"

definition step_goimports :: "world \<Rightarrow> Generator \<Rightarrow> string \<Rightarrow> event list \<Rightarrow> event list" where
  "step_goimports w g projectDir tr =
     (let (r, tr) = runCommand w g projectDir ''goimports'' [''-w'', ''.''] tr
      in case r of
           Some err \<Rightarrow>
             tr @ [Stdout (sign_warning @ ''  goimports not available or failed: ''
                             @ Error err @ [CHR 0x0A]),
                   Println ''   Consider installing goimports: go install golang.org/x/tools/cmd/goimports@latest'']
         | None \<Rightarrow> tr)"

definition step_build :: "world \<Rightarrow> Generator \<Rightarrow> string \<Rightarrow> event list \<Rightarrow> event list" where
  "step_build w g projectDir tr =
     (let (r, tr) = runCommand w g projectDir ''go'' [''build'', ''./...''] tr
      in case r of
           Some err \<Rightarrow>
             tr @ [Stdout (sign_warning
                             @ ''  Build failed (this is expected if dependencies require database): ''
                             @ Error err @ [CHR 0x0A]),
                   Println (''   Run '' @ [CHR 0x27] @ ''make up'' @ [CHR 0x27]
                              @ '' in the project directory to start the database and complete setup'')]
         | None \<Rightarrow> tr @ [Println (sign_done @ '' Build successful'')])"

definition next_steps :: "world \<Rightarrow> string \<Rightarrow> event list" where
  "next_steps w projectDir =
     [Println (sign_done @ '' Post-generation tasks completed''),
      Println [],
      Println ''Next steps:'',
      Println (''  cd '' @ filepath_Base w projectDir),
      Println ''  make up      # Start the development environment'',
      Println ''  make help    # See all available commands'']"

text \<open>
  What the events \<open>evs\<close> of such a block are: no file written, the one command run, and the
  warning \<open>msg err\<close> printed when the command failed with \<open>err\<close>.
\<close>

definition best_effort ::
  "string \<Rightarrow> string \<Rightarrow> string list \<Rightarrow> bool \<Rightarrow> (error \<Rightarrow> string) \<Rightarrow> event list \<Rightarrow> bool" where
  "best_effort dir n a v msg evs \<longleftrightarrow>
     written evs = [] \<and> commands evs = [(n, a)]
     \<and> (\<forall>err. RunCommand dir n a v (Some err) \<in> set evs \<longrightarrow> Stdout (msg err) \<in> set evs)"

text \<open>
  What \<^verbatim>\<open>PostProcess\<close> prints after \<^verbatim>\<open>sqlc generate\<close>, \<^verbatim>\<open>goimports\<close> and \<^verbatim>\<open>go build\<close>, as a
  function of the outcome of the command.
\<close>

definition sqlc_report :: "error option \<Rightarrow> event list" where
  "sqlc_report r =
     (case r of
        Some err \<Rightarrow>
          [Stdout (sign_warning @ ''  SQLc generation failed: '' @ Error err @ [CHR 0x0A]),
           Println ''   Consider installing sqlc: go install github.com/sqlc-dev/sqlc/cmd/sqlc@latest'',
           Println (''   Or run '' @ [CHR 0x27] @ ''make sqlc'' @ [CHR 0x27]
                      @ '' in the project directory after setup'')]
      | None \<Rightarrow> [Println (sign_done @ '' SQLc code generation successful'')])"

definition goimports_report :: "error option \<Rightarrow> event list" where
  "goimports_report r =
     (case r of
        Some err \<Rightarrow>
          [Stdout (sign_warning @ ''  goimports not available or failed: '' @ Error err
                     @ [CHR 0x0A]),
           Println ''   Consider installing goimports: go install golang.org/x/tools/cmd/goimports@latest'']
      | None \<Rightarrow> [])"

definition build_report :: "error option \<Rightarrow> event list" where
  "build_report r =
     (case r of
        Some err \<Rightarrow>
          [Stdout (sign_warning
                     @ ''  Build failed (this is expected if dependencies require database): ''
                     @ Error err @ [CHR 0x0A]),
           Println (''   Run '' @ [CHR 0x27] @ ''make up'' @ [CHR 0x27]
                      @ '' in the project directory to start the database and complete setup'')]
      | None \<Rightarrow> [Println (sign_done @ '' Build successful'')])"




section \<open>Sample inputs\<close>

text \<open>
  A library whose \<^verbatim>\<open>inflection.Plural\<close> maps \<^verbatim>\<open>person\<close> to \<^verbatim>\<open>people\<close>, as the table of
  irregular nouns of that package does, and a configuration with the defaults of the
  command line.
\<close>

definition lib_sample :: lib where
  "lib_sample =
     \<lparr> unicode_ToUpper = (\<lambda>s. s), unicode_ToLower = (\<lambda>s. s), unicode_Title = (\<lambda>s. s),
       inflection_Plural = (\<lambda>w. if w = ''person'' then ''people'' else w @ ''s'') \<rparr>"

definition config_sample :: "string \<Rightarrow> string \<Rightarrow> string list \<Rightarrow> ProjectConfig" where
  "config_sample app domain fs =
     \<lparr> ProjectConfig.AppName = app, ProjectConfig.ModuleName = ''github.com/user/'' @ app,
       ProjectConfig.Domain = domain, ProjectConfig.Description = ''A management API'',
       ProjectConfig.Author = ''Developer'', Features = fs \<rparr>"

text \<open>
  An environment with three templates in two directories, in which the templates named in
  the first argument fail to parse and the commands named in the second fail.
\<close>

definition world_sample :: "string list \<Rightarrow> string list \<Rightarrow> world" where
  "world_sample bad_templates failing_commands =
     \<lparr> filepath_Join = (\<lambda>a b. a @ ''/'' @ b),
       filepath_Dir = (\<lambda>p. rev (drop 1 (dropWhile (\<lambda>c. c \<noteq> CHR ''/'') (rev p)))),
       filepath_Base = (\<lambda>p. rev (takeWhile (\<lambda>c. c \<noteq> CHR ''/'') (rev p))),
       templatesFS_WalkDir =
         [\<lparr>w_path = ''templates'', w_IsDir = True, w_err = None\<rparr>,
          \<lparr>w_path = ''templates/Makefile.tmpl'', w_IsDir = False, w_err = None\<rparr>,
          \<lparr>w_path = ''templates/cmd'', w_IsDir = True, w_err = None\<rparr>,
          \<lparr>w_path = ''templates/cmd/{{.AppName}}.go.tmpl'', w_IsDir = False, w_err = None\<rparr>,
          \<lparr>w_path = ''templates/go.mod.tmpl'', w_IsDir = False, w_err = None\<rparr>],
       templatesFS_ReadFile = (\<lambda>p. Inr ''text''),
       template_Parse =
         (\<lambda>p content. if p \<in> set bad_templates then Some (Err ''unexpected EOF'') else None),
       template_Execute = (\<lambda>p content data. Inr content),
       os_MkdirAll = (\<lambda>h p. None),
       os_WriteFile = (\<lambda>h p b. None),
       cmd_Run =
         (\<lambda>h d n a. if n \<in> set failing_commands then Some (Err ''exit status 1'') else None) \<rparr>"

definition generator_sample :: Generator where
  "generator_sample = \<lparr> outputDir = ''out'', verbose = False \<rparr>"


section \<open>String lemmas\<close>

lemmas suffix_eval = HasSuffix_def TrimSuffix_def HasPrefix_def TrimPrefix_def

lemmas case_eval = ToUpper_def ToLower_def isASCII_def toUpperByte_def toLowerByte_def
  isLowerByte_def isUpperByte_def isDigitByte_def isSeparator_def char_of_eq_iff

lemma HasPrefix_iff: "HasPrefix s p \<longleftrightarrow> prefix p s"
  by (auto simp: HasPrefix_def prefix_def) (metis append_take_drop_id)

lemma HasSuffix_iff: "HasSuffix s suf \<longleftrightarrow> suffix suf s"
  by (auto simp: HasSuffix_def suffix_def) (metis append_take_drop_id)

lemma TrimPrefix_append: "TrimPrefix (p @ s) p = s"
  by (simp add: TrimPrefix_def HasPrefix_def)

lemma TrimSuffix_append: "TrimSuffix (s @ suf) suf = s"
  by (simp add: TrimSuffix_def HasSuffix_def)

lemma TrimPrefix_absent: "\<not> prefix p s \<Longrightarrow> TrimPrefix s p = s"
  by (simp add: TrimPrefix_def HasPrefix_iff)

lemma TrimSuffix_absent: "\<not> suffix suf s \<Longrightarrow> TrimSuffix s suf = s"
  by (simp add: TrimSuffix_def HasSuffix_iff)

text \<open>A pass of \<^verbatim>\<open>ReplaceAll\<close> returns a string without the token as it is.\<close>

lemma ReplaceAll_absent:
  "old \<noteq> [] \<Longrightarrow> \<not> sublist old s \<Longrightarrow> ReplaceAll s old new = s"
proof (induction s)
  case Nil
  then show ?case by (cases old) simp_all
next
  case (Cons x xs)
  from Cons.prems obtain c cs where old: "old = c # cs" by (cases old) auto
  from Cons.prems have np: "\<not> prefix old (x # xs)" and ns: "\<not> sublist old xs"
    by (auto simp: sublist_Cons_right)
  from np have "\<not> HasPrefix (x # xs) (c # cs)" by (simp add: HasPrefix_iff old)
  moreover from Cons.IH Cons.prems(1) ns have "ReplaceAll xs old new = xs" by simp
  ultimately show ?case by (simp add: old)
qed

text \<open>
  A pass of \<^verbatim>\<open>ReplaceAll\<close> replaces the token where it starts and copies a stretch in which
  it does not start.
\<close>

lemma ReplaceAll_hit: "old \<noteq> [] \<Longrightarrow> ReplaceAll (old @ v) old new = new @ ReplaceAll v old new"
  by (cases old) (simp_all add: HasPrefix_def)

lemma ReplaceAll_skip:
  "old \<noteq> [] \<Longrightarrow> (\<forall>i<length u. \<not> prefix old (drop i (u @ v)))
     \<Longrightarrow> ReplaceAll (u @ v) old new = u @ ReplaceAll v old new"
proof (induction u)
  case Nil
  then show ?case by simp
next
  case (Cons x u)
  from Cons.prems obtain c cs where old: "old = c # cs" by (cases old) auto
  from Cons.prems(2) have "\<not> prefix old (drop 0 ((x # u) @ v))" by blast
  then have nh: "\<not> HasPrefix (x # u @ v) (c # cs)" by (simp add: HasPrefix_iff old)
  have "\<forall>i<length u. \<not> prefix old (drop i (u @ v))"
  proof (intro allI impI)
    fix i assume "i < length u"
    then have "Suc i < length (x # u)" by simp
    with Cons.prems(2) have "\<not> prefix old (drop (Suc i) ((x # u) @ v))" by blast
    then show "\<not> prefix old (drop i (u @ v))" by simp
  qed
  with Cons.IH Cons.prems(1) have "ReplaceAll (u @ v) old new = u @ ReplaceAll v old new" by simp
  with nh show ?case by (simp add: old)
qed

lemma HasFeature_closure_iff: "HasFeature_closure fs x \<longleftrightarrow> x \<in> set fs"
  by (induction fs) auto

section \<open>Pluralisation\<close>

text \<open>
  Claim C1, amended. \<^verbatim>\<open>pluralize\<close> replaces a final \<^verbatim>\<open>y\<close> by \<^verbatim>\<open>ies\<close>; otherwise it appends
  \<^verbatim>\<open>es\<close> to a word that ends in \<^verbatim>\<open>s\<close>, \<^verbatim>\<open>sh\<close> or \<^verbatim>\<open>ch\<close>; otherwise it appends \<^verbatim>\<open>s\<close>. So
  \<^verbatim>\<open>category\<close>, \<^verbatim>\<open>bus\<close>, \<^verbatim>\<open>order\<close> and the empty word become \<^verbatim>\<open>categories\<close>, \<^verbatim>\<open>buses\<close>,
  \<^verbatim>\<open>orders\<close> and \<^verbatim>\<open>s\<close>. The function gives the field \<^verbatim>\<open>DomainPlural\<close> in the revision of
  \<^verbatim>\<open>Generate\<close> that defines it; the later revision of \<^verbatim>\<open>Generate\<close> takes the field from
  \<^verbatim>\<open>inflection.Plural\<close> of the imported package.
\<close>

theorem pluralize_heuristic:
  "pluralize (u @ ''y'') = u @ ''ies''
   \<and> (\<not> suffix ''y'' w \<and> (suffix ''s'' w \<or> suffix ''sh'' w \<or> suffix ''ch'' w)
        \<longrightarrow> pluralize w = w @ ''es'')
   \<and> (\<not> suffix ''y'' w \<and> \<not> suffix ''s'' w \<and> \<not> suffix ''sh'' w \<and> \<not> suffix ''ch'' w
        \<longrightarrow> pluralize w = w @ ''s'')
   \<and> pluralize ''category'' = ''categories'' \<and> pluralize ''bus'' = ''buses''
   \<and> pluralize ''order'' = ''orders'' \<and> pluralize [] = ''s''
   \<and> TemplateData_legacy.DomainPlural (Generate_data_legacy l config)
       = pluralize (ProjectConfig.Domain config)
   \<and> DomainPlural (Generate_data l config) = inflection_Plural l (ProjectConfig.Domain config)"
proof -
  have y: "pluralize (u @ ''y'') = u @ ''ies''"
    by (simp add: pluralize_def HasSuffix_iff TrimSuffix_append)
  have es: "\<not> suffix ''y'' w \<and> (suffix ''s'' w \<or> suffix ''sh'' w \<or> suffix ''ch'' w)
        \<longrightarrow> pluralize w = w @ ''es''"
    by (simp add: pluralize_def HasSuffix_iff)
  have s: "\<not> suffix ''y'' w \<and> \<not> suffix ''s'' w \<and> \<not> suffix ''sh'' w \<and> \<not> suffix ''ch'' w
        \<longrightarrow> pluralize w = w @ ''s''"
    by (simp add: pluralize_def HasSuffix_iff)
  have ex: "pluralize ''category'' = ''categories''" "pluralize ''bus'' = ''buses''"
    "pluralize ''order'' = ''orders''" "pluralize [] = ''s''"
    by (simp_all add: pluralize_def suffix_eval)
  have g: "TemplateData_legacy.DomainPlural (Generate_data_legacy l config)
       = pluralize (ProjectConfig.Domain config)"
      "DomainPlural (Generate_data l config) = inflection_Plural l (ProjectConfig.Domain config)"
    by (simp_all add: Generate_data_legacy_def Generate_data_def)
  from y es s ex g show ?thesis by blast
qed

text \<open>The theorem at \<^verbatim>\<open>city\<close>, \<^verbatim>\<open>dish\<close> and \<^verbatim>\<open>task\<close>, and at the domain \<^verbatim>\<open>person\<close>.\<close>

theorem pluralize_heuristic_witness:
  "pluralize ''city'' = ''cities'' \<and> pluralize ''dish'' = ''dishes''
   \<and> pluralize ''task'' = ''tasks''
   \<and> DomainPlural (Generate_data lib_sample (config_sample ''shop'' ''person'' [])) = ''people''"
  using pluralize_heuristic [of "''cit''" "''dish''" lib_sample "config_sample ''shop'' ''person'' []"]
    pluralize_heuristic [of "''cit''" "''task''" lib_sample "config_sample ''shop'' ''person'' []"]
  by (simp add: suffix_def lib_sample_def config_sample_def)

text \<open>
  Claim C1 as stated fails for the later revision: for the domain \<^verbatim>\<open>person\<close> the field
  \<^verbatim>\<open>DomainPlural\<close> is what \<^verbatim>\<open>inflection.Plural\<close> returns, \<^verbatim>\<open>people\<close>, and not the
  \<^verbatim>\<open>persons\<close> of \<^verbatim>\<open>pluralize\<close>.
\<close>

theorem pluralize_Generate_counterexample:
  "DomainPlural (Generate_data lib_sample (config_sample ''shop'' ''person'' [])) = ''people''
   \<and> pluralize (ProjectConfig.Domain (config_sample ''shop'' ''person'' [])) = ''persons''"
  by (simp add: Generate_data_def lib_sample_def config_sample_def pluralize_def suffix_eval)

section \<open>Title case\<close>

text \<open>
  Claim C3, amended. \<^verbatim>\<open>titleCase\<close> returns the empty word as it is. For a word whose first
  byte is ASCII it upper-cases that first character and lower-cases the remainder with
  \<^verbatim>\<open>strings.ToLower\<close>; for an ASCII word this is the byte-wise mapping. So \<^verbatim>\<open>product\<close> and
  \<^verbatim>\<open>PRODUCT\<close> both become \<^verbatim>\<open>Product\<close>. The function gives the field \<^verbatim>\<open>DomainTitle\<close> in
  the revision of \<^verbatim>\<open>Generate\<close> that defines it; the earlier revision of \<^verbatim>\<open>Generate\<close> takes
  the field from \<^verbatim>\<open>strings.Title\<close>. Nothing is said of a word that starts with a byte above
  \<^verbatim>\<open>0x7F\<close>: \<^verbatim>\<open>s[:1]\<close> is then the first byte of a longer UTF-8 sequence, not the first rune.
\<close>

theorem titleCase_first_byte:
  "titleCase l [] = []
   \<and> ((of_char c :: nat) < 128 \<longrightarrow> titleCase l (c # cs) = toUpperByte c # ToLower l cs)
   \<and> (isASCII (c # cs) \<longrightarrow> titleCase l (c # cs) = toUpperByte c # map toLowerByte cs)
   \<and> titleCase l ''product'' = ''Product'' \<and> titleCase l ''PRODUCT'' = ''Product''
   \<and> DomainTitle (Generate_data l config) = titleCase l (ProjectConfig.Domain config)
   \<and> TemplateData_legacy.DomainTitle (Generate_data_legacy l config)
       = Title l (ProjectConfig.Domain config)"
proof -
  have e: "titleCase l [] = []" by (simp add: titleCase_def)
  have a: "(of_char c :: nat) < 128 \<longrightarrow> titleCase l (c # cs) = toUpperByte c # ToLower l cs"
    by (simp add: titleCase_def ToUpper_def isASCII_def)
  have b: "isASCII (c # cs) \<longrightarrow> titleCase l (c # cs) = toUpperByte c # map toLowerByte cs"
    by (simp add: titleCase_def ToUpper_def ToLower_def isASCII_def)
  have ex: "titleCase l ''product'' = ''Product''" "titleCase l ''PRODUCT'' = ''Product''"
    by (simp_all add: titleCase_def case_eval)
  have g: "DomainTitle (Generate_data l config) = titleCase l (ProjectConfig.Domain config)"
    "TemplateData_legacy.DomainTitle (Generate_data_legacy l config)
       = Title l (ProjectConfig.Domain config)"
    by (simp_all add: Generate_data_legacy_def Generate_data_def)
  from e a b ex g show ?thesis by blast
qed

text \<open>The theorem at the domain \<^verbatim>\<open>oRDER\<close>.\<close>

theorem titleCase_first_byte_witness:
  "titleCase lib_sample ''oRDER'' = ''Order''
   \<and> DomainTitle (Generate_data lib_sample (config_sample ''shop'' ''oRDER'' [])) = ''Order''"
  using titleCase_first_byte [of lib_sample "CHR ''o''" "''RDER''" "config_sample ''shop'' ''oRDER'' []"]
  by (simp add: case_eval config_sample_def)

text \<open>
  Claim C3 as stated fails for the earlier revision: for the domain \<^verbatim>\<open>PRODUCT\<close> the field
  \<^verbatim>\<open>DomainTitle\<close> is what \<^verbatim>\<open>strings.Title\<close> returns, \<^verbatim>\<open>PRODUCT\<close>, and not the \<^verbatim>\<open>Product\<close>
  of \<^verbatim>\<open>titleCase\<close>.
\<close>

theorem titleCase_Generate_counterexample:
  "TemplateData_legacy.DomainTitle
     (Generate_data_legacy lib_sample (config_sample ''shop'' ''PRODUCT'' [])) = ''PRODUCT''
   \<and> titleCase lib_sample (ProjectConfig.Domain (config_sample ''shop'' ''PRODUCT'' []))
       = ''Product''"
  by (simp add: Generate_data_legacy_def config_sample_def titleCase_def Title_def case_eval)

section \<open>Path resolution\<close>

lemma getOutputPath_steps:
  "getOutputPath p data =
     ReplaceAll (ReplaceAll (ReplaceAll (ReplaceAll
        (TrimSuffix (TrimPrefix p ''templates/'') ''.tmpl'')
        ''{{.AppName}}'' (AppName data)) ''{{.Domain}}'' (Domain data))
        ''{{.domain}}'' (DomainLower data)) ''{{.domain_plural}}'' (DomainPlural data)"
  by (simp add: getOutputPath_def Let_def TrimSuffix_def)

lemma getOutputPath_legacy_steps:
  "getOutputPath_legacy p data =
     ReplaceAll (ReplaceAll (TrimSuffix (TrimPrefix p ''templates/'') ''.tmpl'')
        ''{{.AppName}}'' (TemplateData_legacy.AppName data))
        ''{{.Domain}}'' (TemplateData_legacy.Domain data)"
  by (simp add: getOutputPath_legacy_def Let_def TrimSuffix_def)

text \<open>
  Claim C2, amended. \<^verbatim>\<open>getOutputPath\<close> strips the prefix \<^verbatim>\<open>templates/\<close>, then a final
  \<^verbatim>\<open>.tmpl\<close>, each only when present, and then replaces, as literal substrings and in this
  order, \<^verbatim>\<open>{{.AppName}}\<close>, \<^verbatim>\<open>{{.Domain}}\<close>, \<^verbatim>\<open>{{.domain}}\<close> and \<^verbatim>\<open>{{.domain_plural}}\<close> by the
  application name, the domain, the lower-cased domain and the plural. The placeholders
  are written with the dot of a template field: with the application \<^verbatim>\<open>shop\<close> and the
  domain \<^verbatim>\<open>order\<close>, the path \<^verbatim>\<open>templates/{{.AppName}}/{{.Domain}}.go.tmpl\<close> resolves to
  \<^verbatim>\<open>shop/order.go\<close>, and the path without the dots contains no placeholder and resolves to
  \<^verbatim>\<open>{{AppName}}/{{Domain}}.go\<close>. A value is inserted after the stripping: an application
  name \<^verbatim>\<open>a.tmpl\<close> keeps its ending, and an application name \<^verbatim>\<open>templates/x\<close> its beginning.
\<close>

theorem getOutputPath_order:
  "getOutputPath (''templates/'' @ q @ ''.tmpl'') data =
     ReplaceAll (ReplaceAll (ReplaceAll (ReplaceAll q
        ''{{.AppName}}'' (AppName data)) ''{{.Domain}}'' (Domain data))
        ''{{.domain}}'' (DomainLower data)) ''{{.domain_plural}}'' (DomainPlural data)
   \<and> getOutputPath p data =
     ReplaceAll (ReplaceAll (ReplaceAll (ReplaceAll
        (TrimSuffix (TrimPrefix p ''templates/'') ''.tmpl'')
        ''{{.AppName}}'' (AppName data)) ''{{.Domain}}'' (Domain data))
        ''{{.domain}}'' (DomainLower data)) ''{{.domain_plural}}'' (DomainPlural data)
   \<and> (\<not> prefix ''templates/'' p \<longrightarrow> TrimPrefix p ''templates/'' = p)
   \<and> (\<not> suffix ''.tmpl'' p \<longrightarrow> TrimSuffix p ''.tmpl'' = p)
   \<and> (AppName data = ''shop'' \<and> Domain data = ''order''
        \<longrightarrow> getOutputPath ''templates/{{.AppName}}/{{.Domain}}.go.tmpl'' data = ''shop/order.go'')
   \<and> (AppName data = ''a.tmpl''
        \<longrightarrow> getOutputPath ''templates/{{.AppName}}'' data = ''a.tmpl'')
   \<and> (AppName data = ''templates/x''
        \<longrightarrow> getOutputPath ''{{.AppName}}/f.tmpl'' data = ''templates/x/f'')
   \<and> getOutputPath ''templates/{{AppName}}/{{Domain}}.go.tmpl'' data = ''{{AppName}}/{{Domain}}.go''"
proof -
  have "TrimSuffix (TrimPrefix (''templates/'' @ q @ ''.tmpl'') ''templates/'') ''.tmpl'' = q"
    by (simp only: TrimPrefix_append TrimSuffix_append)
  then have a: "getOutputPath (''templates/'' @ q @ ''.tmpl'') data =
     ReplaceAll (ReplaceAll (ReplaceAll (ReplaceAll q
        ''{{.AppName}}'' (AppName data)) ''{{.Domain}}'' (Domain data))
        ''{{.domain}}'' (DomainLower data)) ''{{.domain_plural}}'' (DomainPlural data)"
    by (simp only: getOutputPath_steps)
  have b: "\<not> prefix ''templates/'' p \<longrightarrow> TrimPrefix p ''templates/'' = p"
    by (simp add: TrimPrefix_absent)
  have c: "\<not> suffix ''.tmpl'' p \<longrightarrow> TrimSuffix p ''.tmpl'' = p"
    by (simp add: TrimSuffix_absent)
  have d: "AppName data = ''shop'' \<and> Domain data = ''order''
        \<longrightarrow> getOutputPath ''templates/{{.AppName}}/{{.Domain}}.go.tmpl'' data = ''shop/order.go''"
    by (simp add: getOutputPath_def suffix_eval)
  have e: "AppName data = ''a.tmpl''
        \<longrightarrow> getOutputPath ''templates/{{.AppName}}'' data = ''a.tmpl''"
    by (simp add: getOutputPath_def suffix_eval)
  have f: "AppName data = ''templates/x''
        \<longrightarrow> getOutputPath ''{{.AppName}}/f.tmpl'' data = ''templates/x/f''"
    by (simp add: getOutputPath_def suffix_eval)
  have g: "getOutputPath ''templates/{{AppName}}/{{Domain}}.go.tmpl'' data = ''{{AppName}}/{{Domain}}.go''"
    by (simp add: getOutputPath_def suffix_eval)
  from a getOutputPath_steps [of p data] b c d e f g show ?thesis by blast
qed

text \<open>
  The theorem at the applications \<^verbatim>\<open>shop\<close>, \<^verbatim>\<open>a.tmpl\<close> and \<^verbatim>\<open>templates/x\<close>, and at a path
  with neither the prefix nor the suffix.
\<close>

theorem getOutputPath_order_witness:
  "getOutputPath ''templates/{{.AppName}}/{{.Domain}}.go.tmpl''
     (Generate_data lib_sample (config_sample ''shop'' ''order'' [])) = ''shop/order.go''
   \<and> TrimPrefix ''cmd/main.go'' ''templates/'' = ''cmd/main.go''
   \<and> TrimSuffix ''cmd/main.go'' ''.tmpl'' = ''cmd/main.go''
   \<and> getOutputPath ''templates/{{.AppName}}''
     (Generate_data lib_sample (config_sample ''a.tmpl'' ''order'' [])) = ''a.tmpl''
   \<and> getOutputPath ''{{.AppName}}/f.tmpl''
     (Generate_data lib_sample (config_sample ''templates/x'' ''order'' [])) = ''templates/x/f''"
  using getOutputPath_order [of "[]" "Generate_data lib_sample (config_sample ''shop'' ''order'' [])" "''cmd/main.go''"]
    getOutputPath_order [of "[]" "Generate_data lib_sample (config_sample ''a.tmpl'' ''order'' [])" "''cmd/main.go''"]
    getOutputPath_order [of "[]" "Generate_data lib_sample (config_sample ''templates/x'' ''order'' [])" "''cmd/main.go''"]
  by (simp add: Generate_data_def config_sample_def prefix_def suffix_def)

text \<open>
  Claim C2 as stated fails: with the application \<^verbatim>\<open>shop\<close> and the domain \<^verbatim>\<open>order\<close>, the
  path \<^verbatim>\<open>templates/{{AppName}}/{{Domain}}.go.tmpl\<close> of the claim does not resolve to
  \<^verbatim>\<open>shop/order.go\<close>.
\<close>

theorem getOutputPath_dotless_counterexample:
  "getOutputPath ''templates/{{AppName}}/{{Domain}}.go.tmpl''
     (Generate_data lib_sample (config_sample ''shop'' ''order'' [])) = ''{{AppName}}/{{Domain}}.go''
   \<and> TemplateData.AppName (Generate_data lib_sample (config_sample ''shop'' ''order'' [])) = ''shop''
   \<and> TemplateData.Domain (Generate_data lib_sample (config_sample ''shop'' ''order'' [])) = ''order''
   \<and> ''{{AppName}}/{{Domain}}.go'' \<noteq> ''shop/order.go''"
  by (simp add: getOutputPath_def suffix_eval Generate_data_def config_sample_def)

text \<open>
  Claim C9, amended. \<^verbatim>\<open>getOutputPath\<close> returns a path for every template path and every
  template data; it has no error result. A path that, once stripped, contains none of the
  four placeholders is returned as stripped, whatever else it contains, unknown and
  malformed tokens included; and each pass copies unchanged every stretch of the path in
  which its placeholder does not start. So \<^verbatim>\<open>{{.Unknown}}\<close>, \<^verbatim>\<open>{{AppName}}\<close> and a token left
  open stay in the path, also next to a placeholder that is replaced. Text that a value
  inserted by an earlier pass completes to a placeholder of a later pass is not covered.
\<close>

theorem getOutputPath_total_verbatim:
  "(\<not> sublist ''{{.AppName}}'' (TrimSuffix (TrimPrefix p ''templates/'') ''.tmpl'')
      \<and> \<not> sublist ''{{.Domain}}'' (TrimSuffix (TrimPrefix p ''templates/'') ''.tmpl'')
      \<and> \<not> sublist ''{{.domain}}'' (TrimSuffix (TrimPrefix p ''templates/'') ''.tmpl'')
      \<and> \<not> sublist ''{{.domain_plural}}'' (TrimSuffix (TrimPrefix p ''templates/'') ''.tmpl'')
      \<longrightarrow> getOutputPath p data = TrimSuffix (TrimPrefix p ''templates/'') ''.tmpl'')
   \<and> (old \<noteq> [] \<and> (\<forall>i<length u. \<not> prefix old (drop i (u @ v)))
        \<longrightarrow> ReplaceAll (u @ v) old new = u @ ReplaceAll v old new)
   \<and> getOutputPath ''templates/{{.Unknown}}/{{AppName}}/{{.domain.go.tmpl'' data
       = ''{{.Unknown}}/{{AppName}}/{{.domain.go''
   \<and> (AppName data = ''shop''
        \<longrightarrow> getOutputPath ''templates/cmd/{{.AppName}}/{{.Unknown}}/{{Domain}}.go.tmpl'' data
            = ''cmd/shop/{{.Unknown}}/{{Domain}}.go'')"
proof -
  let ?s = "TrimSuffix (TrimPrefix p ''templates/'') ''.tmpl''"
  have a: "\<not> sublist ''{{.AppName}}'' ?s \<and> \<not> sublist ''{{.Domain}}'' ?s
      \<and> \<not> sublist ''{{.domain}}'' ?s \<and> \<not> sublist ''{{.domain_plural}}'' ?s
      \<longrightarrow> getOutputPath p data = ?s"
    by (simp add: getOutputPath_steps ReplaceAll_absent)
  have b: "old \<noteq> [] \<and> (\<forall>i<length u. \<not> prefix old (drop i (u @ v)))
        \<longrightarrow> ReplaceAll (u @ v) old new = u @ ReplaceAll v old new"
    using ReplaceAll_skip by blast
  have c: "getOutputPath ''templates/{{.Unknown}}/{{AppName}}/{{.domain.go.tmpl'' data
       = ''{{.Unknown}}/{{AppName}}/{{.domain.go''"
    by (simp add: getOutputPath_def suffix_eval)
  have d: "AppName data = ''shop''
        \<longrightarrow> getOutputPath ''templates/cmd/{{.AppName}}/{{.Unknown}}/{{Domain}}.go.tmpl'' data
            = ''cmd/shop/{{.Unknown}}/{{Domain}}.go''"
    by (simp add: getOutputPath_def suffix_eval)
  from a b c d show ?thesis by blast
qed

text \<open>
  The theorem at a path with a mistyped and a dot-less token, at a pass over a path that
  starts with an unknown token, and at a path with a placeholder among unknown tokens.
\<close>

theorem getOutputPath_total_verbatim_witness:
  "getOutputPath ''templates/internal/{{.Typo}}/{{domain}}.sql.tmpl''
     (Generate_data lib_sample (config_sample ''shop'' ''order'' []))
     = ''internal/{{.Typo}}/{{domain}}.sql''
   \<and> ReplaceAll ''{{.Typo}}/{{.Domain}}'' ''{{.Domain}}'' ''order''
       = ''{{.Typo}}/'' @ ReplaceAll ''{{.Domain}}'' ''{{.Domain}}'' ''order''
   \<and> getOutputPath ''templates/cmd/{{.AppName}}/{{.Unknown}}/{{Domain}}.go.tmpl''
       (Generate_data lib_sample (config_sample ''shop'' ''order'' []))
       = ''cmd/shop/{{.Unknown}}/{{Domain}}.go''"
proof -
  let ?d = "Generate_data lib_sample (config_sample ''shop'' ''order'' [])"
  let ?p = "''templates/internal/{{.Typo}}/{{domain}}.sql.tmpl''"
  have s: "TrimSuffix (TrimPrefix ?p ''templates/'') ''.tmpl'' = ''internal/{{.Typo}}/{{domain}}.sql''"
    by (simp add: suffix_eval)
  have n: "\<not> sublist ''{{.AppName}}'' ''internal/{{.Typo}}/{{domain}}.sql''"
    "\<not> sublist ''{{.Domain}}'' ''internal/{{.Typo}}/{{domain}}.sql''"
    "\<not> sublist ''{{.domain}}'' ''internal/{{.Typo}}/{{domain}}.sql''"
    "\<not> sublist ''{{.domain_plural}}'' ''internal/{{.Typo}}/{{domain}}.sql''"
    by (simp_all add: sublist_Cons_right)
  have i: "\<forall>i<length ''{{.Typo}}/''. \<not> prefix ''{{.Domain}}'' (drop i (''{{.Typo}}/'' @ ''{{.Domain}}''))"
    by (simp add: All_less_Suc2 numeral_nat)
  have a: "TemplateData.AppName ?d = ''shop''"
    by (simp add: Generate_data_def config_sample_def)
  from getOutputPath_total_verbatim [of ?p ?d "''{{.Domain}}''" "''{{.Typo}}/''" "''{{.Domain}}''" "''order''"]
    s n i a
  show ?thesis by simp
qed

text \<open>
  Claim C9 as stated fails: in \<^verbatim>\<open>templates/{{.dom{{.AppName}}}}\<close> the text \<^verbatim>\<open>{{.dom\<close> is
  not a placeholder, yet it is not in the resolved path. The application name \<^verbatim>\<open>ain\<close>
  completes it to \<^verbatim>\<open>{{.domain}}\<close>, which the third pass replaces by the domain.
\<close>

theorem getOutputPath_completed_token_counterexample:
  "sublist ''{{.dom'' (TrimSuffix (TrimPrefix ''templates/{{.dom{{.AppName}}}}'' ''templates/'') ''.tmpl'')
   \<and> ''{{.dom'' \<notin> {''{{.AppName}}'', ''{{.Domain}}'', ''{{.domain}}'', ''{{.domain_plural}}''}
   \<and> getOutputPath ''templates/{{.dom{{.AppName}}}}''
        (Generate_data lib_sample (config_sample ''ain'' ''order'' [])) = ''order''
   \<and> \<not> sublist ''{{.dom'' (getOutputPath ''templates/{{.dom{{.AppName}}}}''
        (Generate_data lib_sample (config_sample ''ain'' ''order'' [])))"
proof -
  have o: "getOutputPath ''templates/{{.dom{{.AppName}}}}''
        (Generate_data lib_sample (config_sample ''ain'' ''order'' [])) = ''order''"
    by (simp add: getOutputPath_def suffix_eval Generate_data_def config_sample_def case_eval)
  have s: "sublist ''{{.dom'' (TrimSuffix (TrimPrefix ''templates/{{.dom{{.AppName}}}}'' ''templates/'') ''.tmpl'')"
    by (simp add: suffix_eval)
  have n: "\<not> sublist ''{{.dom'' ''order''"
    by (simp add: sublist_Cons_right)
  from o s n show ?thesis by simp
qed

text \<open>
  Claim C10. The placeholders are replaced one after the other, each over the whole path
  that the pass before has produced: application name, domain, lower-cased domain, plural
  (application name, domain in the earlier revision). For the application name
  \<^verbatim>\<open>x{{.Domain}}\<close> and the domain \<^verbatim>\<open>order\<close>, the path
  \<^verbatim>\<open>templates/cmd/{{.AppName}}/main.go.tmpl\<close> resolves to \<^verbatim>\<open>cmd/xorder/main.go\<close> in both
  revisions: the inserted application name has been substituted in turn. A domain
  \<^verbatim>\<open>x{{.AppName}}\<close> stays as it is, since the pass for the application name is over.
\<close>

theorem getOutputPath_sequential:
  "getOutputPath p data =
     ReplaceAll (ReplaceAll (ReplaceAll (ReplaceAll
        (TrimSuffix (TrimPrefix p ''templates/'') ''.tmpl'')
        ''{{.AppName}}'' (AppName data)) ''{{.Domain}}'' (Domain data))
        ''{{.domain}}'' (DomainLower data)) ''{{.domain_plural}}'' (DomainPlural data)
   \<and> getOutputPath_legacy p data' =
     ReplaceAll (ReplaceAll (TrimSuffix (TrimPrefix p ''templates/'') ''.tmpl'')
        ''{{.AppName}}'' (TemplateData_legacy.AppName data'))
        ''{{.Domain}}'' (TemplateData_legacy.Domain data')
   \<and> getOutputPath ''templates/cmd/{{.AppName}}/main.go.tmpl''
        (Generate_data lib_sample (config_sample ''x{{.Domain}}'' ''order'' []))
       = ''cmd/xorder/main.go''
   \<and> getOutputPath_legacy ''templates/cmd/{{.AppName}}/main.go.tmpl''
        (Generate_data_legacy lib_sample (config_sample ''x{{.Domain}}'' ''order'' []))
       = ''cmd/xorder/main.go''
   \<and> getOutputPath ''templates/cmd/{{.Domain}}/main.go.tmpl''
        (Generate_data lib_sample (config_sample ''shop'' ''x{{.AppName}}'' []))
       = ''cmd/x{{.AppName}}/main.go''"
proof -
  have a: "getOutputPath ''templates/cmd/{{.AppName}}/main.go.tmpl''
        (Generate_data lib_sample (config_sample ''x{{.Domain}}'' ''order'' []))
       = ''cmd/xorder/main.go''"
    by (simp add: getOutputPath_def suffix_eval Generate_data_def config_sample_def case_eval)
  have b: "getOutputPath_legacy ''templates/cmd/{{.AppName}}/main.go.tmpl''
        (Generate_data_legacy lib_sample (config_sample ''x{{.Domain}}'' ''order'' []))
       = ''cmd/xorder/main.go''"
    by (simp add: getOutputPath_legacy_def suffix_eval Generate_data_legacy_def config_sample_def)
  have c: "getOutputPath ''templates/cmd/{{.Domain}}/main.go.tmpl''
        (Generate_data lib_sample (config_sample ''shop'' ''x{{.AppName}}'' []))
       = ''cmd/x{{.AppName}}/main.go''"
    by (simp add: getOutputPath_def suffix_eval Generate_data_def config_sample_def case_eval lib_sample_def)
  from getOutputPath_steps [of p data] getOutputPath_legacy_steps [of p data'] a b c
  show ?thesis by blast
qed

section \<open>Features\<close>

text \<open>
  Claim C7. \<^verbatim>\<open>HasFeature\<close> of the template data built by \<^verbatim>\<open>Generate\<close>, in either revision,
  holds of a name exactly when the name is an element of \<^verbatim>\<open>config.Features\<close>; names are
  compared as byte strings, so letter case matters. Two lists with the same elements, in
  any order and with any repetition, give the same answer, and the empty list gives
  \<open>False\<close> for every name.
\<close>

theorem HasFeature_membership:
  "HasFeature (Generate_data l config) x = (x \<in> set (Features config))
   \<and> (set (Features config') = set (Features config)
        \<longrightarrow> HasFeature (Generate_data l config') x = HasFeature (Generate_data l config) x)
   \<and> (Features config = [] \<longrightarrow> \<not> HasFeature (Generate_data l config) x)
   \<and> TemplateData_legacy.HasFeature (Generate_data_legacy l config) x = (x \<in> set (Features config))"
  by (simp add: Generate_data_def Generate_data_legacy_def HasFeature_closure_iff)

text \<open>
  The theorem at a list of two features, at the same features in another order with one
  repeated, and at the empty list.
\<close>

theorem HasFeature_membership_witness:
  "HasFeature (Generate_data lib_sample (config_sample ''shop'' ''order'' [''auth'', ''Cache''])) ''Cache''
   \<and> \<not> HasFeature (Generate_data lib_sample (config_sample ''shop'' ''order'' [''auth'', ''Cache''])) ''cache''
   \<and> HasFeature (Generate_data lib_sample (config_sample ''shop'' ''order'' [''Cache'', ''auth'', ''Cache''])) ''auth''
      = HasFeature (Generate_data lib_sample (config_sample ''shop'' ''order'' [''auth'', ''Cache''])) ''auth''
   \<and> \<not> HasFeature (Generate_data lib_sample (config_sample ''shop'' ''order'' [])) ''auth''"
  using HasFeature_membership [of lib_sample "config_sample ''shop'' ''order'' [''auth'', ''Cache'']" "''Cache''"
          "config_sample ''shop'' ''order'' [''Cache'', ''auth'', ''Cache'']"]
    HasFeature_membership [of lib_sample "config_sample ''shop'' ''order'' [''auth'', ''Cache'']" "''cache''"
          "config_sample ''shop'' ''order'' [''Cache'', ''auth'', ''Cache'']"]
    HasFeature_membership [of lib_sample "config_sample ''shop'' ''order'' [''auth'', ''Cache'']" "''auth''"
          "config_sample ''shop'' ''order'' [''Cache'', ''auth'', ''Cache'']"]
    HasFeature_membership [of lib_sample "config_sample ''shop'' ''order'' []" "''auth''"
          "config_sample ''shop'' ''order'' []"]
  by (auto simp: config_sample_def)

section \<open>Traces\<close>

lemma written_append: "written (a @ b) = written a @ written b"
  by (induction a rule: written.induct) simp_all

lemma commands_append: "commands (a @ b) = commands a @ commands b"
  by (induction a rule: commands.induct) simp_all

lemma written_Println [simp]: "written (Println s # tr) = written tr"
  by (simp add: Println_def)

lemma commands_Println [simp]: "commands (Println s # tr) = commands tr"
  by (simp add: Println_def)

lemma Println_neq_RunCommand [simp]: "RunCommand d n a v r \<noteq> Println s"
  by (simp add: Println_def)

lemma RunCommand_in_commands:
  "RunCommand d n a v r \<in> set evs \<Longrightarrow> (n, a) \<in> set (commands evs)"
  by (induction evs rule: commands.induct) auto

section \<open>The walk over the templates\<close>

text \<open>
  A call of the walk function that returns \<^verbatim>\<open>nil\<close> has written the file of its template, if
  the entry is one; a call that returns an error has written nothing. Neither runs a
  command.
\<close>

lemma walkFn_ok:
  "walkFn w g data dir c tr = (None, tr') \<Longrightarrow>
     written tr' = written tr @ outputs w data dir [c] \<and> commands tr' = commands tr"
  by (auto simp: walkFn_def Let_def outputs_def rendered_def written_append commands_append
        split: option.splits sum.splits if_splits)

lemma walkFn_fail:
  "walkFn w g data dir c tr = (Some err, tr') \<Longrightarrow>
     written tr' = written tr \<and> commands tr' = commands tr"
  by (auto simp: walkFn_def Let_def written_append commands_append
        split: option.splits sum.splits if_splits)





lemma WalkDir_commands:
  "WalkDir w g data dir cs tr = (r, tr') \<Longrightarrow> commands tr' = commands tr"
proof (induction cs arbitrary: tr)
  case Nil
  then show ?case by simp
next
  case (Cons c cs)
  show ?case
  proof (cases "walkFn w g data dir c tr")
    case (Pair r1 tr1)
    show ?thesis
    proof (cases r1)
      case None
      with Pair Cons.prems have "WalkDir w g data dir cs tr1 = (r, tr')" by simp
      from Cons.IH [OF this] walkFn_ok [of w g data dir c tr tr1] Pair None
      show ?thesis by simp
    next
      case (Some e)
      with Pair Cons.prems have "tr' = tr1" by simp
      with walkFn_fail [of w g data dir c tr e tr1] Pair Some show ?thesis by simp
    qed
  qed
qed


text \<open>The walk succeeds when every step of every entry does.\<close>

lemma walkFn_succeeds:
  assumes "w_err c = None"
    and "\<not> w_IsDir c \<longrightarrow> (\<exists>content buf. templatesFS_ReadFile w (w_path c) = Inr content
            \<and> template_Parse w (w_path c) content = None
            \<and> template_Execute w (w_path c) content data = Inr buf)"
    and "\<forall>h p. os_MkdirAll w h p = None" and "\<forall>h p b. os_WriteFile w h p b = None"
  shows "\<exists>tr'. walkFn w g data dir c tr = (None, tr')"
  using assms by (auto simp: walkFn_def Let_def)

lemma WalkDir_succeeds:
  assumes "\<forall>c\<in>set cs. w_err c = None
            \<and> (\<not> w_IsDir c \<longrightarrow> (\<exists>content buf. templatesFS_ReadFile w (w_path c) = Inr content
                  \<and> template_Parse w (w_path c) content = None
                  \<and> template_Execute w (w_path c) content data = Inr buf))"
    and "\<forall>h p. os_MkdirAll w h p = None" and "\<forall>h p b. os_WriteFile w h p b = None"
  shows "\<exists>tr'. WalkDir w g data dir cs tr = (None, tr')"
  using assms(1)
proof (induction cs arbitrary: tr)
  case Nil
  then show ?case by simp
next
  case (Cons c cs)
  from Cons.prems assms(2,3) obtain tr1 where 1: "walkFn w g data dir c tr = (None, tr1)"
    using walkFn_succeeds [of c w data g dir tr] by auto
  from Cons.prems have "\<forall>c\<in>set cs. w_err c = None
            \<and> (\<not> w_IsDir c \<longrightarrow> (\<exists>content buf. templatesFS_ReadFile w (w_path c) = Inr content
                  \<and> template_Parse w (w_path c) content = None
                  \<and> template_Execute w (w_path c) content data = Inr buf))" by simp
  from Cons.IH [OF this, of tr1] 1 show ?case by simp
qed







section \<open>The steps of post-processing\<close>

lemma PostProcess_steps:
  "PostProcess w g dir data tr =
     (case runCommand w g dir ''go'' [''mod'', ''init'', ModuleName data]
             (tr @ [Println (sign_working @ '' Running post-generation tasks...'')]) of
        (Some err, tr) \<Rightarrow> (Some (Errorf ''failed to initialize go module'' err), tr)
      | (None, tr) \<Rightarrow>
          (case runCommand w g dir ''go'' [''mod'', ''tidy''] (step_sqlc w g dir tr) of
             (Some err, tr) \<Rightarrow> (Some (Errorf ''failed to run go mod tidy'' err), tr)
           | (None, tr) \<Rightarrow>
               (case runCommand w g dir ''go'' [''fmt'', ''./...''] tr of
                  (Some err, tr) \<Rightarrow> (Some (Errorf ''failed to format generated code'' err), tr)
                | (None, tr) \<Rightarrow>
                    (None, step_build w g dir (step_goimports w g dir tr) @ next_steps w dir))))"
  unfolding PostProcess_def step_sqlc_def step_goimports_def step_build_def next_steps_def Let_def
  by (simp only: split_def append_assoc)

lemma runCommand_events:
  "\<exists>r. runCommand w g dir n a tr = (r, tr @ [RunCommand dir n a (verbose g) r])
     \<and> r = cmd_Run w tr dir n a"
  by (simp add: runCommand_def Let_def)


lemma step_sqlc_events:
  "\<exists>evs. step_sqlc w g dir tr = tr @ evs
     \<and> best_effort dir ''sqlc'' [''generate''] (verbose g)
          (\<lambda>err. sign_warning @ ''  SQLc generation failed: '' @ Error err @ [CHR 0x0A]) evs"
  by (cases "cmd_Run w tr dir ''sqlc'' [''generate'']")
     (simp_all add: step_sqlc_def runCommand_def Let_def best_effort_def)

lemma step_goimports_events:
  "\<exists>evs. step_goimports w g dir tr = tr @ evs
     \<and> best_effort dir ''goimports'' [''-w'', ''.''] (verbose g)
          (\<lambda>err. sign_warning @ ''  goimports not available or failed: '' @ Error err
                   @ [CHR 0x0A]) evs"
  by (cases "cmd_Run w tr dir ''goimports'' [''-w'', ''.'']")
     (simp_all add: step_goimports_def runCommand_def Let_def best_effort_def)

lemma step_build_events:
  "\<exists>evs. step_build w g dir tr = tr @ evs
     \<and> best_effort dir ''go'' [''build'', ''./...''] (verbose g)
          (\<lambda>err. sign_warning
                   @ ''  Build failed (this is expected if dependencies require database): ''
                   @ Error err @ [CHR 0x0A]) evs"
  by (cases "cmd_Run w tr dir ''go'' [''build'', ''./...'']")
     (simp_all add: step_build_def runCommand_def Let_def best_effort_def)

lemma next_steps_events:
  "written (next_steps w dir) = [] \<and> commands (next_steps w dir) = []"
  by (simp add: next_steps_def)

lemma step_written [simp]:
  "written (step_sqlc w g dir tr) = written tr"
  "written (step_goimports w g dir tr) = written tr"
  "written (step_build w g dir tr) = written tr"
  using step_sqlc_events [of w g dir tr] step_goimports_events [of w g dir tr]
    step_build_events [of w g dir tr]
  by (auto simp: best_effort_def written_append)


lemma runCommand_None:
  "cmd_Run w tr dir n a = None \<Longrightarrow>
     runCommand w g dir n a tr = (None, tr @ [RunCommand dir n a (verbose g) None])"
  by (simp add: runCommand_def Let_def)

lemma step_sqlc_report:
  "cmd_Run w tr dir ''sqlc'' [''generate''] = r \<Longrightarrow>
     step_sqlc w g dir tr =
       tr @ [RunCommand dir ''sqlc'' [''generate''] (verbose g) r] @ sqlc_report r"
  by (cases r) (simp_all add: step_sqlc_def runCommand_def Let_def sqlc_report_def)

lemma step_goimports_report:
  "cmd_Run w tr dir ''goimports'' [''-w'', ''.''] = r \<Longrightarrow>
     step_goimports w g dir tr =
       tr @ [RunCommand dir ''goimports'' [''-w'', ''.''] (verbose g) r] @ goimports_report r"
  by (cases r) (simp_all add: step_goimports_def runCommand_def Let_def goimports_report_def)

lemma step_build_report:
  "cmd_Run w tr dir ''go'' [''build'', ''./...''] = r \<Longrightarrow>
     step_build w g dir tr =
       tr @ [RunCommand dir ''go'' [''build'', ''./...''] (verbose g) r] @ build_report r"
  by (cases r) (simp_all add: step_build_def runCommand_def Let_def build_report_def)

section \<open>Generate\<close>

lemma Generate_unfold:
  assumes "os_MkdirAll w tr (filepath_Join w (outputDir g) (ProjectConfig.AppName config)) = None"
    and "processTemplates w g (Generate_data l config)
           (filepath_Join w (outputDir g) (ProjectConfig.AppName config))
           (tr @ [MkdirAll (filepath_Join w (outputDir g) (ProjectConfig.AppName config)) 493 None])
         = (r, tr1)"
  shows "Generate l w g config tr =
     (case r of
        Some err \<Rightarrow> (Some err, tr1)
      | None \<Rightarrow>
          (case PostProcess w g (filepath_Join w (outputDir g) (ProjectConfig.AppName config))
                  (Generate_data l config) tr1 of
             (Some err, tr2) \<Rightarrow> (Some (Errorf ''post-processing failed'' err), tr2)
           | (None, tr2) \<Rightarrow> (None, tr2)))"
  using assms by (simp add: Generate_def Let_def split: option.splits)


section \<open>The sample environment\<close>

lemma world_sample_succeeds:
  "\<forall>c\<in>set (templatesFS_WalkDir (world_sample [] cmds)). w_err c = None
      \<and> (\<not> w_IsDir c \<longrightarrow>
           (\<exists>content buf. templatesFS_ReadFile (world_sample [] cmds) (w_path c) = Inr content
              \<and> template_Parse (world_sample [] cmds) (w_path c) content = None
              \<and> template_Execute (world_sample [] cmds) (w_path c) content data = Inr buf))"
  by (simp add: world_sample_def)

lemma world_sample_os:
  "\<forall>h p. os_MkdirAll (world_sample bad cmds) h p = None"
  "\<forall>h p b. os_WriteFile (world_sample bad cmds) h p b = None"
  by (simp_all add: world_sample_def)

lemma world_sample_processTemplates:
  "\<exists>tr1. processTemplates (world_sample [] cmds) g data dir tr = (None, tr1)"
  unfolding processTemplates_def
  using WalkDir_succeeds [OF world_sample_succeeds world_sample_os] by blast

lemma sample_dir:
  "filepath_Join (world_sample bad cmds) (outputDir generator_sample)
     (ProjectConfig.AppName (config_sample ''shop'' domain fs)) = ''out/shop''"
  by (simp add: world_sample_def generator_sample_def config_sample_def)

section \<open>Fatal and best-effort steps\<close>

text \<open>
  Claim C4. When the command \<^verbatim>\<open>go mod init\<close> fails with \<open>err\<close>, \<^verbatim>\<open>PostProcess\<close> returns the
  error \<^verbatim>\<open>failed to initialize go module\<close> wrapping \<open>err\<close>, having printed its opening line
  and run that one command. A \<^verbatim>\<open>Generate\<close> that has created the project directory and
  written the templates then returns \<^verbatim>\<open>post-processing failed\<close> wrapping that error, so its
  message names the step; the only command in its trace is \<^verbatim>\<open>go mod init\<close>, and
  \<^verbatim>\<open>go mod tidy\<close> has not been run.
\<close>

theorem PostProcess_fatal_init:
  assumes "cmd_Run w (tr1 @ [Println (sign_working @ '' Running post-generation tasks...'')])
             dir ''go'' [''mod'', ''init'', ModuleName data] = Some err"
  shows "PostProcess w g dir data tr1 =
           (Some (Errorf ''failed to initialize go module'' err),
            tr1 @ [Println (sign_working @ '' Running post-generation tasks...''),
                   RunCommand dir ''go'' [''mod'', ''init'', ModuleName data] (verbose g) (Some err)])
     \<and> (data = Generate_data l config
          \<and> dir = filepath_Join w (outputDir g) (ProjectConfig.AppName config)
          \<and> os_MkdirAll w [] dir = None
          \<and> processTemplates w g data dir [MkdirAll dir 493 None] = (None, tr1)
        \<longrightarrow> Generate l w g config [] =
              (Some (Errorf ''post-processing failed''
                       (Errorf ''failed to initialize go module'' err)),
               tr1 @ [Println (sign_working @ '' Running post-generation tasks...''),
                      RunCommand dir ''go'' [''mod'', ''init'', ModuleName data] (verbose g)
                        (Some err)])
            \<and> commands (snd (Generate l w g config [])) =
                [(''go'', [''mod'', ''init'', ModuleName data])]
            \<and> (''go'', [''mod'', ''tidy'']) \<notin> set (commands (snd (Generate l w g config []))))
     \<and> Error (Errorf ''post-processing failed'' (Errorf ''failed to initialize go module'' err))
         = ''post-processing failed: failed to initialize go module: '' @ Error err"
proof -
  let ?evs = "[Println (sign_working @ '' Running post-generation tasks...''),
               RunCommand dir ''go'' [''mod'', ''init'', ModuleName data] (verbose g) (Some err)]"
  have pp: "PostProcess w g dir data tr1 =
      (Some (Errorf ''failed to initialize go module'' err), tr1 @ ?evs)"
    using assms by (simp add: PostProcess_steps runCommand_def Let_def)
  have gen: "Generate l w g config [] =
              (Some (Errorf ''post-processing failed''
                       (Errorf ''failed to initialize go module'' err)), tr1 @ ?evs)
            \<and> commands (snd (Generate l w g config [])) =
                [(''go'', [''mod'', ''init'', ModuleName data])]
            \<and> (''go'', [''mod'', ''tidy'']) \<notin> set (commands (snd (Generate l w g config [])))"
    if d: "data = Generate_data l config"
      and j: "dir = filepath_Join w (outputDir g) (ProjectConfig.AppName config)"
      and m: "os_MkdirAll w [] dir = None"
      and p: "processTemplates w g data dir [MkdirAll dir 493 None] = (None, tr1)"
  proof -
    from m p have g: "Generate l w g config [] =
        (Some (Errorf ''post-processing failed''
                 (Errorf ''failed to initialize go module'' err)), tr1 @ ?evs)"
      using Generate_unfold [of w "[]" g config l None tr1] pp
      by (simp add: d j)
    from p have "commands tr1 = commands [MkdirAll dir 493 None]"
      unfolding processTemplates_def by (rule WalkDir_commands)
    then have c: "commands (tr1 @ ?evs) = [(''go'', [''mod'', ''init'', ModuleName data])]"
      by (simp add: commands_append)
    from g c show ?thesis by simp
  qed
  have msg: "Error (Errorf ''post-processing failed'' (Errorf ''failed to initialize go module'' err))
         = ''post-processing failed: failed to initialize go module: '' @ Error err"
    by simp
  from pp gen msg show ?thesis by blast
qed

text \<open>The theorem in an environment in which every \<^verbatim>\<open>go\<close> command fails.\<close>

theorem PostProcess_fatal_init_witness:
  "fst (Generate lib_sample (world_sample [] [''go'']) generator_sample
          (config_sample ''shop'' ''order'' []) [])
     = Some (Errorf ''post-processing failed''
               (Errorf ''failed to initialize go module'' (Err ''exit status 1'')))
   \<and> commands (snd (Generate lib_sample (world_sample [] [''go'']) generator_sample
          (config_sample ''shop'' ''order'' []) []))
     = [(''go'', [''mod'', ''init'', ''github.com/user/shop''])]"
proof -
  let ?w = "world_sample [] [''go'']"
  let ?c = "config_sample ''shop'' ''order'' []"
  let ?d = "Generate_data lib_sample ?c"
  let ?dir = "filepath_Join ?w (outputDir generator_sample) (ProjectConfig.AppName ?c)"
  obtain tr1 where p: "processTemplates ?w generator_sample ?d ?dir [MkdirAll ?dir 493 None]
      = (None, tr1)"
    using world_sample_processTemplates by blast
  have r: "cmd_Run ?w (tr1 @ [Println (sign_working @ '' Running post-generation tasks...'')])
             ?dir ''go'' [''mod'', ''init'', ModuleName ?d] = Some (Err ''exit status 1'')"
    by (simp add: world_sample_def)
  have m: "os_MkdirAll ?w [] ?dir = None" by (simp add: world_sample_def)
  have n: "ModuleName ?d = ''github.com/user/shop''"
    by (simp add: Generate_data_def config_sample_def)
  from PostProcess_fatal_init [OF r, of generator_sample lib_sample ?c] p m
  have g: "Generate lib_sample ?w generator_sample ?c [] =
      (Some (Errorf ''post-processing failed''
               (Errorf ''failed to initialize go module'' (Err ''exit status 1''))),
       tr1 @ [Println (sign_working @ '' Running post-generation tasks...''),
              RunCommand ?dir ''go'' [''mod'', ''init'', ModuleName ?d]
                (verbose generator_sample) (Some (Err ''exit status 1''))])"
    and c: "commands (snd (Generate lib_sample ?w generator_sample ?c [])) =
      [(''go'', [''mod'', ''init'', ModuleName ?d])]"
    by blast+
  from g have "fst (Generate lib_sample ?w generator_sample ?c []) =
      Some (Errorf ''post-processing failed''
              (Errorf ''failed to initialize go module'' (Err ''exit status 1'')))"
    by simp
  with c n show ?thesis by simp
qed

text \<open>
  Claim C5. Let \<^verbatim>\<open>go mod init\<close>, \<^verbatim>\<open>go mod tidy\<close> and \<^verbatim>\<open>go fmt\<close> return \<^verbatim>\<open>nil\<close> where this run
  calls them, and let \<open>rs\<close>, \<open>ri\<close> and \<open>rb\<close> be what \<^verbatim>\<open>sqlc generate\<close>, \<^verbatim>\<open>goimports\<close> and
  \<^verbatim>\<open>go build\<close> return where this run calls them. Then \<^verbatim>\<open>PostProcess\<close> returns \<^verbatim>\<open>nil\<close>, and
  its trace is the one stated: all six commands are run, in this order, each with its
  outcome, so a step that follows a failed one is still attempted. If \<open>rs\<close>, \<open>ri\<close> or
  \<open>rb\<close> is an error \<open>err\<close>, the warning of that step, with the message of \<open>err\<close>, is
  printed. A \<^verbatim>\<open>Generate\<close> that has created the project directory and written the
  templates then returns \<^verbatim>\<open>nil\<close> with that trace.
\<close>

theorem PostProcess_best_effort_only:
  assumes init: "cmd_Run w
        (tr @ [Println (sign_working @ '' Running post-generation tasks...'')])
        dir ''go'' [''mod'', ''init'', ModuleName data] = None"
    and sqlc: "cmd_Run w
        (tr @ [Println (sign_working @ '' Running post-generation tasks...''),
               RunCommand dir ''go'' [''mod'', ''init'', ModuleName data] (verbose g) None])
        dir ''sqlc'' [''generate''] = rs"
    and tidy: "cmd_Run w
        (tr @ [Println (sign_working @ '' Running post-generation tasks...''),
               RunCommand dir ''go'' [''mod'', ''init'', ModuleName data] (verbose g) None,
               RunCommand dir ''sqlc'' [''generate''] (verbose g) rs]
            @ sqlc_report rs)
        dir ''go'' [''mod'', ''tidy''] = None"
    and fmt: "cmd_Run w
        (tr @ [Println (sign_working @ '' Running post-generation tasks...''),
               RunCommand dir ''go'' [''mod'', ''init'', ModuleName data] (verbose g) None,
               RunCommand dir ''sqlc'' [''generate''] (verbose g) rs]
            @ sqlc_report rs
            @ [RunCommand dir ''go'' [''mod'', ''tidy''] (verbose g) None])
        dir ''go'' [''fmt'', ''./...''] = None"
    and goimp: "cmd_Run w
        (tr @ [Println (sign_working @ '' Running post-generation tasks...''),
               RunCommand dir ''go'' [''mod'', ''init'', ModuleName data] (verbose g) None,
               RunCommand dir ''sqlc'' [''generate''] (verbose g) rs]
            @ sqlc_report rs
            @ [RunCommand dir ''go'' [''mod'', ''tidy''] (verbose g) None,
               RunCommand dir ''go'' [''fmt'', ''./...''] (verbose g) None])
        dir ''goimports'' [''-w'', ''.''] = ri"
    and build: "cmd_Run w
        (tr @ [Println (sign_working @ '' Running post-generation tasks...''),
               RunCommand dir ''go'' [''mod'', ''init'', ModuleName data] (verbose g) None,
               RunCommand dir ''sqlc'' [''generate''] (verbose g) rs]
            @ sqlc_report rs
            @ [RunCommand dir ''go'' [''mod'', ''tidy''] (verbose g) None,
               RunCommand dir ''go'' [''fmt'', ''./...''] (verbose g) None,
               RunCommand dir ''goimports'' [''-w'', ''.''] (verbose g) ri]
            @ goimports_report ri)
        dir ''go'' [''build'', ''./...''] = rb"
  shows "PostProcess w g dir data tr =
      (None,
       tr @ [Println (sign_working @ '' Running post-generation tasks...''),
             RunCommand dir ''go'' [''mod'', ''init'', ModuleName data] (verbose g) None,
             RunCommand dir ''sqlc'' [''generate''] (verbose g) rs]
          @ sqlc_report rs
          @ [RunCommand dir ''go'' [''mod'', ''tidy''] (verbose g) None,
             RunCommand dir ''go'' [''fmt'', ''./...''] (verbose g) None,
             RunCommand dir ''goimports'' [''-w'', ''.''] (verbose g) ri]
          @ goimports_report ri
          @ [RunCommand dir ''go'' [''build'', ''./...''] (verbose g) rb]
          @ build_report rb
          @ next_steps w dir)
   \<and> commands (snd (PostProcess w g dir data tr)) =
       commands tr @
         [(''go'', [''mod'', ''init'', ModuleName data]), (''sqlc'', [''generate'']),
          (''go'', [''mod'', ''tidy'']), (''go'', [''fmt'', ''./...'']),
          (''goimports'', [''-w'', ''.'']), (''go'', [''build'', ''./...''])]
   \<and> (rs = Some err \<longrightarrow>
        Stdout (sign_warning @ ''  SQLc generation failed: '' @ Error err @ [CHR 0x0A])
          \<in> set (snd (PostProcess w g dir data tr)))
   \<and> (ri = Some err \<longrightarrow>
        Stdout (sign_warning @ ''  goimports not available or failed: '' @ Error err
                  @ [CHR 0x0A])
          \<in> set (snd (PostProcess w g dir data tr)))
   \<and> (rb = Some err \<longrightarrow>
        Stdout (sign_warning
                  @ ''  Build failed (this is expected if dependencies require database): ''
                  @ Error err @ [CHR 0x0A])
          \<in> set (snd (PostProcess w g dir data tr)))
   \<and> (data = Generate_data l config
        \<and> dir = filepath_Join w (outputDir g) (ProjectConfig.AppName config)
        \<and> os_MkdirAll w [] dir = None
        \<and> processTemplates w g data dir [MkdirAll dir 493 None] = (None, tr)
      \<longrightarrow> Generate l w g config [] = (None, snd (PostProcess w g dir data tr)))"
proof -
  let ?start = "Println (sign_working @ '' Running post-generation tasks...'')"
  let ?init = "RunCommand dir ''go'' [''mod'', ''init'', ModuleName data] (verbose g) None"
  let ?sqlc = "RunCommand dir ''sqlc'' [''generate''] (verbose g) rs"
  let ?tidy = "RunCommand dir ''go'' [''mod'', ''tidy''] (verbose g) None"
  let ?fmt = "RunCommand dir ''go'' [''fmt'', ''./...''] (verbose g) None"
  let ?imp = "RunCommand dir ''goimports'' [''-w'', ''.''] (verbose g) ri"
  let ?build = "RunCommand dir ''go'' [''build'', ''./...''] (verbose g) rb"
  let ?h1 = "tr @ [?start]"
  let ?h2 = "tr @ [?start, ?init]"
  let ?h3 = "tr @ [?start, ?init, ?sqlc] @ sqlc_report rs"
  let ?h4 = "tr @ [?start, ?init, ?sqlc] @ sqlc_report rs @ [?tidy]"
  let ?h5 = "tr @ [?start, ?init, ?sqlc] @ sqlc_report rs @ [?tidy, ?fmt]"
  let ?h6 = "tr @ [?start, ?init, ?sqlc] @ sqlc_report rs @ [?tidy, ?fmt, ?imp] @ goimports_report ri"
  let ?h7 = "tr @ [?start, ?init, ?sqlc] @ sqlc_report rs @ [?tidy, ?fmt, ?imp] @ goimports_report ri
               @ [?build] @ build_report rb @ next_steps w dir"
  have 1: "runCommand w g dir ''go'' [''mod'', ''init'', ModuleName data] ?h1 = (None, ?h2)"
    using runCommand_None [OF init, of g] by simp
  have 2: "step_sqlc w g dir ?h2 = ?h3"
    using step_sqlc_report [OF sqlc, of g] by simp
  have 3: "runCommand w g dir ''go'' [''mod'', ''tidy''] ?h3 = (None, ?h4)"
    using runCommand_None [OF tidy, of g] by simp
  have 4: "runCommand w g dir ''go'' [''fmt'', ''./...''] ?h4 = (None, ?h5)"
    using runCommand_None [OF fmt, of g] by simp
  have 5: "step_goimports w g dir ?h5 = ?h6"
    using step_goimports_report [OF goimp, of g] by simp
  have 6: "step_build w g dir ?h6 @ next_steps w dir = ?h7"
    using step_build_report [OF build, of g] by simp
  have run: "PostProcess w g dir data tr = (None, ?h7)"
    by (simp only: PostProcess_steps 1 2 3 4 5 6 prod.case option.case)
  have cmds: "commands ?h7 = commands tr @
         [(''go'', [''mod'', ''init'', ModuleName data]), (''sqlc'', [''generate'']),
          (''go'', [''mod'', ''tidy'']), (''go'', [''fmt'', ''./...'']),
          (''goimports'', [''-w'', ''.'']), (''go'', [''build'', ''./...''])]"
    by (cases rs; cases ri; cases rb)
       (simp_all add: commands_append next_steps_events sqlc_report_def goimports_report_def
          build_report_def)
  have w1: "rs = Some err \<longrightarrow>
        Stdout (sign_warning @ ''  SQLc generation failed: '' @ Error err @ [CHR 0x0A]) \<in> set ?h7"
    by (simp add: sqlc_report_def)
  have w2: "ri = Some err \<longrightarrow>
        Stdout (sign_warning @ ''  goimports not available or failed: '' @ Error err
                  @ [CHR 0x0A]) \<in> set ?h7"
    by (simp add: goimports_report_def)
  have w3: "rb = Some err \<longrightarrow>
        Stdout (sign_warning
                  @ ''  Build failed (this is expected if dependencies require database): ''
                  @ Error err @ [CHR 0x0A]) \<in> set ?h7"
    by (simp add: build_report_def)
  have gen: "data = Generate_data l config
        \<and> dir = filepath_Join w (outputDir g) (ProjectConfig.AppName config)
        \<and> os_MkdirAll w [] dir = None
        \<and> processTemplates w g data dir [MkdirAll dir 493 None] = (None, tr)
      \<longrightarrow> Generate l w g config [] = (None, ?h7)"
  proof (intro impI, elim conjE)
    assume d: "data = Generate_data l config"
      and j: "dir = filepath_Join w (outputDir g) (ProjectConfig.AppName config)"
      and m: "os_MkdirAll w [] dir = None"
      and p: "processTemplates w g data dir [MkdirAll dir 493 None] = (None, tr)"
    from p have "processTemplates w g (Generate_data l config)
        (filepath_Join w (outputDir g) (ProjectConfig.AppName config))
        ([] @ [MkdirAll (filepath_Join w (outputDir g) (ProjectConfig.AppName config)) 493 None])
        = (None, tr)"
      by (simp add: d j)
    moreover from m have "os_MkdirAll w []
        (filepath_Join w (outputDir g) (ProjectConfig.AppName config)) = None"
      by (simp add: j)
    moreover from run have "PostProcess w g
        (filepath_Join w (outputDir g) (ProjectConfig.AppName config))
        (Generate_data l config) tr = (None, ?h7)"
      by (simp add: d j)
    ultimately show "Generate l w g config [] = (None, ?h7)"
      using Generate_unfold [of w "[]" g config l None tr] by simp
  qed
  have s: "snd (PostProcess w g dir data tr) = ?h7"
    by (simp only: run snd_conv)
  show ?thesis unfolding s by (intro conjI run cmds w1 w2 w3 gen)
qed

text \<open>
  The theorem in an environment in which \<^verbatim>\<open>sqlc\<close> and \<^verbatim>\<open>goimports\<close> fail: \<^verbatim>\<open>Generate\<close>
  returns \<^verbatim>\<open>nil\<close>, both warnings are printed, and \<^verbatim>\<open>go build\<close> is run after the failure of
  \<^verbatim>\<open>goimports\<close>.
\<close>

theorem PostProcess_best_effort_only_witness:
  "fst (Generate lib_sample (world_sample [] [''sqlc'', ''goimports'']) generator_sample
          (config_sample ''shop'' ''order'' []) []) = None
   \<and> commands (snd (Generate lib_sample (world_sample [] [''sqlc'', ''goimports''])
          generator_sample (config_sample ''shop'' ''order'' []) [])) =
         [(''go'', [''mod'', ''init'', ''github.com/user/shop'']), (''sqlc'', [''generate'']),
          (''go'', [''mod'', ''tidy'']), (''go'', [''fmt'', ''./...'']),
          (''goimports'', [''-w'', ''.'']), (''go'', [''build'', ''./...''])]
   \<and> Stdout (sign_warning @ ''  SQLc generation failed: exit status 1'' @ [CHR 0x0A])
        \<in> set (snd (Generate lib_sample (world_sample [] [''sqlc'', ''goimports''])
                 generator_sample (config_sample ''shop'' ''order'' []) []))
   \<and> Stdout (sign_warning @ ''  goimports not available or failed: exit status 1''
               @ [CHR 0x0A])
        \<in> set (snd (Generate lib_sample (world_sample [] [''sqlc'', ''goimports''])
                 generator_sample (config_sample ''shop'' ''order'' []) []))
   \<and> RunCommand ''out/shop'' ''go'' [''build'', ''./...''] False None
        \<in> set (snd (Generate lib_sample (world_sample [] [''sqlc'', ''goimports''])
                 generator_sample (config_sample ''shop'' ''order'' []) []))"
proof -
  let ?w = "world_sample [] [''sqlc'', ''goimports'']"
  let ?c = "config_sample ''shop'' ''order'' []"
  let ?d = "Generate_data lib_sample ?c"
  let ?G = "Generate lib_sample ?w generator_sample ?c []"
  let ?x = "Some (Err ''exit status 1'')"
  have dir: "''out/shop'' = filepath_Join ?w (outputDir generator_sample) (ProjectConfig.AppName ?c)"
    by (simp add: sample_dir)
  have n: "ModuleName ?d = ''github.com/user/shop''"
    by (simp add: Generate_data_def config_sample_def)
  have v: "verbose generator_sample = False" by (simp add: generator_sample_def)
  obtain tr1 where p: "processTemplates ?w generator_sample ?d ''out/shop''
      [MkdirAll ''out/shop'' 493 None] = (None, tr1)"
    using world_sample_processTemplates by blast
  have m: "os_MkdirAll ?w [] ''out/shop'' = None" by (simp add: world_sample_def)
  have ok: "\<And>h a. cmd_Run ?w h ''out/shop'' ''go'' a = None"
    and bad: "\<And>h. cmd_Run ?w h ''out/shop'' ''sqlc'' [''generate''] = ?x"
      "\<And>h. cmd_Run ?w h ''out/shop'' ''goimports'' [''-w'', ''.''] = ?x"
    by (simp_all add: world_sample_def)
  note t = PostProcess_best_effort_only [of ?w tr1 "''out/shop''" ?d generator_sample ?x ?x None
      "Err ''exit status 1''" lib_sample ?c, OF ok bad(1) ok ok bad(2) ok]
  from t p m dir have g: "?G = (None, snd (PostProcess ?w generator_sample ''out/shop'' ?d tr1))"
    by blast
  from p have c0: "commands tr1 = []"
    unfolding processTemplates_def using WalkDir_commands by fastforce
  from t have c: "commands (snd (PostProcess ?w generator_sample ''out/shop'' ?d tr1)) =
       commands tr1 @
         [(''go'', [''mod'', ''init'', ModuleName ?d]), (''sqlc'', [''generate'']),
          (''go'', [''mod'', ''tidy'']), (''go'', [''fmt'', ''./...'']),
          (''goimports'', [''-w'', ''.'']), (''go'', [''build'', ''./...''])]"
    by blast
  from t have w1: "Stdout (sign_warning @ ''  SQLc generation failed: '' @ Error (Err ''exit status 1'')
                     @ [CHR 0x0A])
        \<in> set (snd (PostProcess ?w generator_sample ''out/shop'' ?d tr1))"
    and w2: "Stdout (sign_warning @ ''  goimports not available or failed: ''
                     @ Error (Err ''exit status 1'') @ [CHR 0x0A])
        \<in> set (snd (PostProcess ?w generator_sample ''out/shop'' ?d tr1))"
    by blast+
  from t have run: "PostProcess ?w generator_sample ''out/shop'' ?d tr1 =
      (None,
       tr1 @ [Println (sign_working @ '' Running post-generation tasks...''),
             RunCommand ''out/shop'' ''go'' [''mod'', ''init'', ModuleName ?d]
               (verbose generator_sample) None,
             RunCommand ''out/shop'' ''sqlc'' [''generate''] (verbose generator_sample) ?x]
          @ sqlc_report ?x
          @ [RunCommand ''out/shop'' ''go'' [''mod'', ''tidy''] (verbose generator_sample) None,
             RunCommand ''out/shop'' ''go'' [''fmt'', ''./...''] (verbose generator_sample) None,
             RunCommand ''out/shop'' ''goimports'' [''-w'', ''.''] (verbose generator_sample) ?x]
          @ goimports_report ?x
          @ [RunCommand ''out/shop'' ''go'' [''build'', ''./...''] (verbose generator_sample) None]
          @ build_report None
          @ next_steps ?w ''out/shop'')"
    by blast
  have b: "RunCommand ''out/shop'' ''go'' [''build'', ''./...''] False None
        \<in> set (snd (PostProcess ?w generator_sample ''out/shop'' ?d tr1))"
    by (simp only: run snd_conv v) simp
  have g1: "fst ?G = None" and g2: "snd ?G = snd (PostProcess ?w generator_sample ''out/shop'' ?d tr1)"
    by (simp_all only: g fst_conv snd_conv)
  from c c0 n have c': "commands (snd ?G) =
         [(''go'', [''mod'', ''init'', ''github.com/user/shop'']), (''sqlc'', [''generate'']),
          (''go'', [''mod'', ''tidy'']), (''go'', [''fmt'', ''./...'']),
          (''goimports'', [''-w'', ''.'']), (''go'', [''build'', ''./...''])]"
    by (simp only: g2) simp
  from w1 have w1': "Stdout (sign_warning @ ''  SQLc generation failed: exit status 1'' @ [CHR 0x0A])
        \<in> set (snd ?G)"
    by (simp only: g2) simp
  from w2 have w2': "Stdout (sign_warning @ ''  goimports not available or failed: exit status 1''
               @ [CHR 0x0A]) \<in> set (snd ?G)"
    by (simp only: g2) simp
  from b have b': "RunCommand ''out/shop'' ''go'' [''build'', ''./...''] False None \<in> set (snd ?G)"
    by (simp only: g2)
  show ?thesis by (intro conjI g1 c' w1' w2' b')
qed

section \<open>The project writer\<close>






end
